theory Spec2Isabelle
  imports
    Complex_Main
    "HOL-Library.Char_ord"
    "HOL-Library.List_Lexorder"
    "HOL-Library.Product_Lexorder"
    "HOL-Library.Multiset"
    "HOL-Library.Log_Nat"
begin

section \<open>Reservations and reviews over SQLite: the FastAPI backend\<close>

text \<open>
  The backend of \<^verbatim>\<open>api-endpoints.md\<close> (files \<^verbatim>\<open>backend/app/database.py\<close>,
  \<^verbatim>\<open>models.py\<close>, \<^verbatim>\<open>routers/reservations.py\<close>, \<^verbatim>\<open>routers/reviews.py\<close>) is embedded
  as functions on an explicit database state. A table is the list of its rows in rowid
  order; a path function takes the state and returns its result together with the state
  that \<^verbatim>\<open>get_db\<close> leaves behind (committed on a normal return, rolled back when an
  exception leaves the \<^verbatim>\<open>with\<close> block).

  Record fields share one name space, so every field carries the source's column or
  attribute name behind a short prefix for its model: \<open>rsv_\<close> a row of \<open>reservations\<close>,
  \<open>rc_\<close> ReservationCreate, \<open>ru_\<close> ReservationUpdate, \<open>rev_\<close> a row of \<open>reviews\<close>,
  \<open>rvc_\<close> ReviewCreate.

  What stays outside: the value of \<^verbatim>\<open>CURRENT_TIMESTAMP\<close> is an argument \<open>now\<close> of the
  writing functions; the e-mail check of pydantic's \<^verbatim>\<open>EmailStr\<close> is an argument
  \<open>email_ok\<close>, and a model holds the address as the path function receives it; the
  planner's choice of the scan that feeds the \<^verbatim>\<open>ORDER BY\<close> of the reviews list is an
  argument \<open>rank\<close>; rowids, sums and counts are unbounded integers. A double is the
  rational number it stands for, rounded to 53 significant bits with an unbounded
  exponent.
\<close>

subsection \<open>Errors\<close>

datatype error =
    HTTPException nat string
  | RequestValidationError
  | IntegrityError
  | OperationalError
  | TypeError
  | ResponseValidationError

text \<open>
  \<open>HTTPException c d\<close> is \<^verbatim>\<open>raise HTTPException(status_code=c, detail=d)\<close>;
  \<open>RequestValidationError\<close> is what FastAPI raises (status 422) when a body or a query
  parameter fails its pydantic constraints, before the path function runs;
  \<open>IntegrityError\<close> and \<open>OperationalError\<close> are the exceptions of \<^verbatim>\<open>sqlite3\<close>;
  \<open>TypeError\<close> is \<^verbatim>\<open>dict(None)\<close>; \<open>ResponseValidationError\<close> is what FastAPI raises
  (status 500) when the value that a path function returned fails the route's
  \<^verbatim>\<open>response_model\<close>.
\<close>

datatype error_kind = NotFound | ValidationError | StorageError

text \<open>
  The three kinds of the error taxonomy, read off the status code a client receives:
  404 is NotFound, 400 and 422 are ValidationError, everything else (status 500) is
  StorageError.
\<close>

fun kind_of :: "error \<Rightarrow> error_kind" where
  "kind_of (HTTPException c d) =
     (if c = 404 then NotFound else if c = 400 \<or> c = 422 then ValidationError else StorageError)"
| "kind_of RequestValidationError = ValidationError"
| "kind_of IntegrityError = StorageError"
| "kind_of OperationalError = StorageError"
| "kind_of TypeError = StorageError"
| "kind_of ResponseValidationError = StorageError"

subsection \<open>models.py\<close>

datatype ReservationStatus = pending | confirmed | cancelled

fun status_value :: "ReservationStatus \<Rightarrow> string" where
  "status_value pending = ''pending''"
| "status_value confirmed = ''confirmed''"
| "status_value cancelled = ''cancelled''"

record ReservationCreate =
  rc_restaurant_id :: string
  rc_customer_name :: string
  rc_customer_email :: string
  rc_customer_phone :: "string option"
  rc_party_size :: int
  rc_reservation_date :: string
  rc_reservation_time :: string
  rc_notes :: "string option"

text \<open>
  The constraints of the class: \<^verbatim>\<open>customer_name\<close> has \<^verbatim>\<open>min_length=1, max_length=100\<close>,
  \<^verbatim>\<open>customer_email\<close> is an \<^verbatim>\<open>EmailStr\<close>, \<^verbatim>\<open>party_size\<close> has \<^verbatim>\<open>ge=1, le=20\<close>.
\<close>

definition ReservationCreate_valid :: "(string \<Rightarrow> bool) \<Rightarrow> ReservationCreate \<Rightarrow> bool" where
  "ReservationCreate_valid email_ok r \<longleftrightarrow>
     1 \<le> length (rc_customer_name r) \<and> length (rc_customer_name r) \<le> 100 \<and>
     email_ok (rc_customer_email r) \<and>
     1 \<le> rc_party_size r \<and> rc_party_size r \<le> 20"

text \<open>
  A field of an update model is unset (absent from the request body) or set, and a set
  field holds a value or \<^verbatim>\<open>None\<close> (the body gives \<^verbatim>\<open>null\<close>):
  \<^verbatim>\<open>model_dump(exclude_unset=True)\<close> keeps every set field, \<^verbatim>\<open>None\<close> included.
\<close>

datatype 'a field = Unset | FieldSet "'a option"

record ReservationUpdate =
  ru_customer_name :: "string field"
  ru_customer_email :: "string field"
  ru_customer_phone :: "string field"
  ru_party_size :: "int field"
  ru_reservation_date :: "string field"
  ru_reservation_time :: "string field"
  ru_status :: "ReservationStatus field"
  ru_notes :: "string field"

fun field_ok :: "('a \<Rightarrow> bool) \<Rightarrow> 'a field \<Rightarrow> bool" where
  "field_ok P Unset = True"
| "field_ok P (FieldSet None) = True"
| "field_ok P (FieldSet (Some v)) = P v"

definition ReservationUpdate_valid :: "(string \<Rightarrow> bool) \<Rightarrow> ReservationUpdate \<Rightarrow> bool" where
  "ReservationUpdate_valid email_ok u \<longleftrightarrow>
     field_ok email_ok (ru_customer_email u) \<and>
     field_ok (\<lambda>n. 1 \<le> n \<and> n \<le> 20) (ru_party_size u)"

text \<open>\<^verbatim>\<open>ReservationUpdate()\<close>, the update of the request body \<^verbatim>\<open>{}\<close>: no field is set.\<close>

definition ReservationUpdate_empty :: ReservationUpdate where
  "ReservationUpdate_empty =
     \<lparr>ru_customer_name = Unset, ru_customer_email = Unset, ru_customer_phone = Unset,
      ru_party_size = Unset, ru_reservation_date = Unset, ru_reservation_time = Unset,
      ru_status = Unset, ru_notes = Unset\<rparr>"

record Reservation =
  rsv_id :: int
  rsv_restaurant_id :: string
  rsv_customer_name :: string
  rsv_customer_email :: string
  rsv_customer_phone :: "string option"
  rsv_party_size :: int
  rsv_reservation_date :: string
  rsv_reservation_time :: string
  rsv_status :: "string option"
  rsv_notes :: "string option"
  rsv_created_at :: string
  rsv_updated_at :: string

text \<open>
  \<^verbatim>\<open>ReservationResponse\<close>, the \<^verbatim>\<open>response_model\<close> of the routes that return one
  reservation: every attribute but \<^verbatim>\<open>customer_phone\<close> and \<^verbatim>\<open>notes\<close> is required, and
  of the columns behind the required ones only \<^verbatim>\<open>status\<close> can hold \<^verbatim>\<open>NULL\<close>.
\<close>

definition ReservationResponse_valid :: "Reservation \<Rightarrow> bool" where
  "ReservationResponse_valid row \<longleftrightarrow> rsv_status row \<noteq> None"

record ReviewCreate =
  rvc_restaurant_id :: string
  rvc_reviewer_name :: string
  rvc_reviewer_email :: "string option"
  rvc_rating :: int
  rvc_title :: "string option"
  rvc_comment :: "string option"
  rvc_visit_date :: "string option"

definition ReviewCreate_valid :: "(string \<Rightarrow> bool) \<Rightarrow> ReviewCreate \<Rightarrow> bool" where
  "ReviewCreate_valid email_ok r \<longleftrightarrow>
     1 \<le> length (rvc_reviewer_name r) \<and> length (rvc_reviewer_name r) \<le> 100 \<and>
     (case rvc_reviewer_email r of None \<Rightarrow> True | Some e \<Rightarrow> email_ok e) \<and>
     1 \<le> rvc_rating r \<and> rvc_rating r \<le> 5 \<and>
     (case rvc_title r of None \<Rightarrow> True | Some t \<Rightarrow> length t \<le> 200)"

record Review =
  rev_id :: int
  rev_restaurant_id :: string
  rev_reviewer_name :: string
  rev_reviewer_email :: "string option"
  rev_rating :: int
  rev_title :: "string option"
  rev_comment :: "string option"
  rev_visit_date :: "string option"
  rev_created_at :: string

record ReviewStats =
  avg_rating :: "rat option"
  total_reviews :: int

record ReviewsWithStats =
  reviews :: "Review list"
  stats :: ReviewStats

subsection \<open>database.py\<close>

text \<open>
  The two tables of \<^verbatim>\<open>init_database\<close> with the counters that \<^verbatim>\<open>AUTOINCREMENT\<close> keeps
  in \<^verbatim>\<open>sqlite_sequence\<close> (the largest rowid ever given out in the table).
\<close>

record database =
  tbl_reservations :: "Reservation list"
  seq_reservations :: int
  tbl_reviews :: "Review list"
  seq_reviews :: int

text \<open>
  \<^verbatim>\<open>CREATE TABLE IF NOT EXISTS\<close>: a database file that is not there yet (\<open>None\<close>) gets
  the two empty tables, an existing one is left as it is.
\<close>

definition init_database :: "database option \<Rightarrow> database" where
  "init_database file =
     (case file of
        None \<Rightarrow> \<lparr>tbl_reservations = [], seq_reservations = 0, tbl_reviews = [], seq_reviews = 0\<rparr>
      | Some db \<Rightarrow> db)"

subsection \<open>SQL statements as the path functions issue them\<close>

text \<open>
  A bound parameter of \<^verbatim>\<open>cursor.execute(sql, params)\<close>.
\<close>

datatype sql_value = SqlNull | SqlInt int | SqlText string

text \<open>
  The two list endpoints assemble the text of their \<^verbatim>\<open>SELECT\<close> at run time, so the
  model keeps that text: \<open>execute_select_\<dots>\<close> below read the statement they are given
  and answer \<open>None\<close> (an \<^verbatim>\<open>sqlite3\<close> error) for any text or parameter list that is
  not one of the shapes handled here. \<open>strip_prefix p s\<close> removes the text \<open>p\<close> from the
  front of \<open>s\<close>; \<open>opt_clause\<close> reads a clause that may be there or not.
\<close>

fun strip_prefix :: "string \<Rightarrow> string \<Rightarrow> string option" where
  "strip_prefix [] s = Some s"
| "strip_prefix (c # p) [] = None"
| "strip_prefix (c # p) (d # s) = (if c = d then strip_prefix p s else None)"

definition opt_clause :: "string \<Rightarrow> string \<Rightarrow> bool \<times> string" where
  "opt_clause clause s =
     (case strip_prefix clause s of Some rest \<Rightarrow> (True, rest) | None \<Rightarrow> (False, s))"

text \<open>
  \<^verbatim>\<open>ORDER BY\<close> on one key. The rows reach the sorter in the order in which the scan of
  the chosen plan delivers them, and rows with equal keys leave it in that order, for
  \<^verbatim>\<open>ASC\<close> and for \<^verbatim>\<open>DESC\<close>: the argument \<open>rows\<close> of \<open>order_by_asc\<close> and
  \<open>order_by_desc\<close> is that delivery.

  Which scan the planner picks (the table in rowid order, or one of the indexes, forwards
  or backwards) is not in the statement. \<open>scan rank rows\<close> stands for it: it delivers
  the rows by ascending \<open>rank\<close>, rows of equal rank in rowid order. Every order of the
  rows is the scan of some rank.
\<close>

definition scan :: "('r \<Rightarrow> int) \<Rightarrow> 'r list \<Rightarrow> 'r list" where
  "scan rank rows = sort_key rank rows"

definition order_by_asc :: "('r \<Rightarrow> 'k::linorder) \<Rightarrow> 'r list \<Rightarrow> 'r list" where
  "order_by_asc key rows = sort_key key rows"

definition order_by_desc :: "('r \<Rightarrow> 'k::linorder) \<Rightarrow> 'r list \<Rightarrow> 'r list" where
  "order_by_desc key rows = rev (sort_key key (rev rows))"

text \<open>
  A double, as the rational number it stands for. \<open>binade x\<close> is the exponent \<open>e\<close> with
  \<open>2 ^ e \<le> \<bar>x\<bar> < 2 ^ (e + 1)\<close>, and \<open>to_double x\<close> is the multiple of \<open>2 ^ (e - 52)\<close>
  nearest to \<open>x\<close>, a tie going to the even one: the rounding of an exact result to 53
  significant bits (the exponent is not bounded, so there is neither overflow nor a
  subnormal range).
\<close>

definition round_half_even :: "rat \<Rightarrow> int" where
  "round_half_even x =
     (let f = \<lfloor>x\<rfloor>; d = x - of_int f
      in if d < 1 / 2 then f else if 1 / 2 < d then f + 1 else if even f then f else f + 1)"

definition binade :: "rat \<Rightarrow> int" where
  "binade x =
     (let (p, q) = quotient_of \<bar>x\<bar>;
          e = int (floorlog 2 (nat p)) - int (floorlog 2 (nat q))
      in if 2 powi e \<le> \<bar>x\<bar> then e else e - 1)"

definition to_double :: "rat \<Rightarrow> rat" where
  "to_double x =
     (if x = 0 then 0
      else (let ulp = 2 powi (binade x - 52) in of_int (round_half_even (x / ulp)) * ulp))"

text \<open>
  The rowid of an inserted row under \<^verbatim>\<open>INTEGER PRIMARY KEY AUTOINCREMENT\<close>: one more
  than the largest rowid of the table and the counter of \<^verbatim>\<open>sqlite_sequence\<close>.
\<close>

definition next_rowid :: "int \<Rightarrow> int list \<Rightarrow> int" where
  "next_rowid seq ids = fold max ids seq + 1"

subsection \<open>routers/reservations.py\<close>

text \<open>
  \<^verbatim>\<open>if restaurant_id: query += " AND restaurant_id = ?"; params.append(restaurant_id)\<close>
  for an \<^verbatim>\<open>Optional[str]\<close>: \<^verbatim>\<open>None\<close> and the empty string are both false, and
  \<open>given\<close> is the truth value that the \<^verbatim>\<open>if\<close> sees.
\<close>

definition given :: "string option \<Rightarrow> bool" where
  "given v \<longleftrightarrow> v \<noteq> None \<and> v \<noteq> Some []"

fun add_text_filter ::
  "string \<Rightarrow> string option \<Rightarrow> string \<times> sql_value list \<Rightarrow> string \<times> sql_value list" where
  "add_text_filter clause None (query, params) = (query, params)"
| "add_text_filter clause (Some v) (query, params) =
     (if v = [] then (query, params) else (query @ clause, params @ [SqlText v]))"

definition get_reservations_query :: "string option \<Rightarrow> string option \<Rightarrow> string \<times> sql_value list" where
  "get_reservations_query restaurant_id status =
     (let (query, params) =
            add_text_filter '' AND restaurant_id = ?'' restaurant_id
              (''SELECT * FROM reservations WHERE 1=1'', []);
          (query, params) = add_text_filter '' AND status = ?'' status (query, params)
      in (query @ '' ORDER BY reservation_date, reservation_time'', params))"

fun where_reservations :: "bool \<Rightarrow> bool \<Rightarrow> sql_value list \<Rightarrow> (Reservation \<Rightarrow> bool) option" where
  "where_reservations False False [] = Some (\<lambda>r. True)"
| "where_reservations True False [SqlText a] = Some (\<lambda>r. rsv_restaurant_id r = a)"
| "where_reservations False True [SqlText b] = Some (\<lambda>r. rsv_status r = Some b)"
| "where_reservations True True [SqlText a, SqlText b] =
     Some (\<lambda>r. rsv_restaurant_id r = a \<and> rsv_status r = Some b)"
| "where_reservations _ _ _ = None"

text \<open>
  For the statement of \<open>get_reservations\<close> every plan there is (the table,
  \<^verbatim>\<open>idx_reservations_restaurant\<close> under the equality, \<^verbatim>\<open>idx_reservations_date\<close>)
  delivers rows of equal date in rowid order, so the sorter gets the matching rows of
  the table as they are stored.
\<close>

definition execute_select_reservations ::
  "string \<Rightarrow> sql_value list \<Rightarrow> Reservation list \<Rightarrow> Reservation list option" where
  "execute_select_reservations sql params tbl =
     (case strip_prefix ''SELECT * FROM reservations WHERE 1=1'' sql of
        None \<Rightarrow> None
      | Some s0 \<Rightarrow>
          (let (by_restaurant, s1) = opt_clause '' AND restaurant_id = ?'' s0;
               (by_status, s2) = opt_clause '' AND status = ?'' s1
           in if s2 \<noteq> '' ORDER BY reservation_date, reservation_time'' then None
              else (case where_reservations by_restaurant by_status params of
                      None \<Rightarrow> None
                    | Some P \<Rightarrow>
                        Some (order_by_asc (\<lambda>r. (rsv_reservation_date r, rsv_reservation_time r))
                                (filter P tbl)))))"

definition get_reservations ::
  "string option \<Rightarrow> string option \<Rightarrow> database \<Rightarrow> (error + Reservation list) \<times> database" where
  "get_reservations restaurant_id status db =
     (let (query, params) = get_reservations_query restaurant_id status
      in case execute_select_reservations query params (tbl_reservations db) of
           None \<Rightarrow> (Inl OperationalError, db)
         | Some rows \<Rightarrow> (Inr rows, db))"

text \<open>
  \<^verbatim>\<open>cursor.execute("SELECT * FROM reservations WHERE id = ?", (reservation_id,))\<close>
  followed by \<^verbatim>\<open>cursor.fetchone()\<close>.
\<close>

definition select_reservation :: "int \<Rightarrow> Reservation list \<Rightarrow> Reservation option" where
  "select_reservation reservation_id tbl = find (\<lambda>r. rsv_id r = reservation_id) tbl"

text \<open>
  What a route with \<^verbatim>\<open>response_model=ReservationResponse\<close> answers once its path
  function has returned \<open>row\<close>: the \<^verbatim>\<open>with get_db()\<close> block has been left and its
  transaction committed by then, so \<open>db\<close> is the state after the path function, also
  when the row fails the model. (The rows that \<open>get_reservations\<close> returns go through
  the same check, which is not part of \<open>get_reservations\<close> above.)
\<close>

definition response :: "Reservation \<Rightarrow> database \<Rightarrow> (error + Reservation) \<times> database" where
  "response row db =
     (if ReservationResponse_valid row then (Inr row, db) else (Inl ResponseValidationError, db))"

definition get_reservation :: "int \<Rightarrow> database \<Rightarrow> (error + Reservation) \<times> database" where
  "get_reservation reservation_id db =
     (case select_reservation reservation_id (tbl_reservations db) of
        None \<Rightarrow> (Inl (HTTPException 404 ''Reservation not found''), db)
      | Some row \<Rightarrow> response row db)"

text \<open>
  The \<^verbatim>\<open>INSERT\<close> of \<^verbatim>\<open>create_reservation\<close> names eight columns; \<^verbatim>\<open>id\<close>, \<^verbatim>\<open>status\<close>,
  \<^verbatim>\<open>created_at\<close> and \<^verbatim>\<open>updated_at\<close> take the defaults of the schema. The result is
  \<^verbatim>\<open>cursor.lastrowid\<close> and the new state.
\<close>

definition insert_reservation :: "string \<Rightarrow> ReservationCreate \<Rightarrow> database \<Rightarrow> int \<times> database" where
  "insert_reservation now reservation db =
     (let rowid = next_rowid (seq_reservations db) (map rsv_id (tbl_reservations db));
          row = \<lparr>rsv_id = rowid,
                 rsv_restaurant_id = rc_restaurant_id reservation,
                 rsv_customer_name = rc_customer_name reservation,
                 rsv_customer_email = rc_customer_email reservation,
                 rsv_customer_phone = rc_customer_phone reservation,
                 rsv_party_size = rc_party_size reservation,
                 rsv_reservation_date = rc_reservation_date reservation,
                 rsv_reservation_time = rc_reservation_time reservation,
                 rsv_status = Some ''pending'',
                 rsv_notes = rc_notes reservation,
                 rsv_created_at = now,
                 rsv_updated_at = now\<rparr>
      in (rowid, db\<lparr>tbl_reservations := tbl_reservations db @ [row], seq_reservations := rowid\<rparr>))"

definition create_reservation ::
  "(string \<Rightarrow> bool) \<Rightarrow> string \<Rightarrow> ReservationCreate \<Rightarrow> database \<Rightarrow> (error + Reservation) \<times> database" where
  "create_reservation email_ok now reservation db =
     (if \<not> ReservationCreate_valid email_ok reservation then (Inl RequestValidationError, db)
      else (let (reservation_id, db') = insert_reservation now reservation db
            in case select_reservation reservation_id (tbl_reservations db') of
                 None \<Rightarrow> (Inl TypeError, db)
               | Some row \<Rightarrow> response row db'))"

text \<open>
  \<^verbatim>\<open>update_data = update.model_dump(exclude_unset=True)\<close>: the keys of the set fields,
  in the order of the class.
\<close>

fun dump :: "string \<Rightarrow> 'a field \<Rightarrow> string list" where
  "dump key Unset = []"
| "dump key (FieldSet v) = [key]"

definition update_data :: "ReservationUpdate \<Rightarrow> string list" where
  "update_data u =
     dump ''customer_name'' (ru_customer_name u) @
     dump ''customer_email'' (ru_customer_email u) @
     dump ''customer_phone'' (ru_customer_phone u) @
     dump ''party_size'' (ru_party_size u) @
     dump ''reservation_date'' (ru_reservation_date u) @
     dump ''reservation_time'' (ru_reservation_time u) @
     dump ''status'' (ru_status u) @
     dump ''notes'' (ru_notes u)"

text \<open>
  \<^verbatim>\<open>UPDATE reservations SET k1 = ?, ..., updated_at = CURRENT_TIMESTAMP WHERE id = ?\<close>
  with one \<^verbatim>\<open>k = ?\<close> for each key of \<^verbatim>\<open>update_data\<close>: a column whose field is unset
  keeps its value; \<^verbatim>\<open>NULL\<close> for a \<^verbatim>\<open>NOT NULL\<close> column fails the statement (\<open>None\<close>).
  The status is bound as the string value of the enum member.
\<close>

fun assign_not_null :: "'a field \<Rightarrow> ('a \<Rightarrow> 'r \<Rightarrow> 'r) \<Rightarrow> 'r \<Rightarrow> 'r option" where
  "assign_not_null Unset upd r = Some r"
| "assign_not_null (FieldSet None) upd r = None"
| "assign_not_null (FieldSet (Some v)) upd r = Some (upd v r)"

fun assign_nullable :: "'a field \<Rightarrow> ('a option \<Rightarrow> 'r \<Rightarrow> 'r) \<Rightarrow> 'r \<Rightarrow> 'r option" where
  "assign_nullable Unset upd r = Some r"
| "assign_nullable (FieldSet v) upd r = Some (upd v r)"

definition update_row :: "ReservationUpdate \<Rightarrow> string \<Rightarrow> Reservation \<Rightarrow> Reservation option" where
  "update_row u now r0 =
     Option.bind (assign_not_null (ru_customer_name u) (\<lambda>v r. r\<lparr>rsv_customer_name := v\<rparr>) r0) (\<lambda>r1.
     Option.bind (assign_not_null (ru_customer_email u) (\<lambda>v r. r\<lparr>rsv_customer_email := v\<rparr>) r1) (\<lambda>r2.
     Option.bind (assign_nullable (ru_customer_phone u) (\<lambda>v r. r\<lparr>rsv_customer_phone := v\<rparr>) r2) (\<lambda>r3.
     Option.bind (assign_not_null (ru_party_size u) (\<lambda>v r. r\<lparr>rsv_party_size := v\<rparr>) r3) (\<lambda>r4.
     Option.bind (assign_not_null (ru_reservation_date u) (\<lambda>v r. r\<lparr>rsv_reservation_date := v\<rparr>) r4) (\<lambda>r5.
     Option.bind (assign_not_null (ru_reservation_time u) (\<lambda>v r. r\<lparr>rsv_reservation_time := v\<rparr>) r5) (\<lambda>r6.
     Option.bind (assign_nullable (ru_status u)
                    (\<lambda>v r. r\<lparr>rsv_status := map_option status_value v\<rparr>) r6) (\<lambda>r7.
     Option.bind (assign_nullable (ru_notes u) (\<lambda>v r. r\<lparr>rsv_notes := v\<rparr>) r7) (\<lambda>r8.
     Some (r8\<lparr>rsv_updated_at := now\<rparr>)))))))))"

definition execute_update ::
  "ReservationUpdate \<Rightarrow> string \<Rightarrow> int \<Rightarrow> Reservation list \<Rightarrow> Reservation list option" where
  "execute_update u now reservation_id tbl =
     those (map (\<lambda>r. if rsv_id r = reservation_id then update_row u now r else Some r) tbl)"

definition update_reservation ::
  "(string \<Rightarrow> bool) \<Rightarrow> string \<Rightarrow> int \<Rightarrow> ReservationUpdate \<Rightarrow> database \<Rightarrow>
     (error + Reservation) \<times> database" where
  "update_reservation email_ok now reservation_id update db =
     (if \<not> ReservationUpdate_valid email_ok update then (Inl RequestValidationError, db)
      else case select_reservation reservation_id (tbl_reservations db) of
        None \<Rightarrow> (Inl (HTTPException 404 ''Reservation not found''), db)
      | Some _ \<Rightarrow>
          if update_data update = [] then (Inl (HTTPException 400 ''No fields to update''), db)
          else (case execute_update update now reservation_id (tbl_reservations db) of
                  None \<Rightarrow> (Inl IntegrityError, db)
                | Some tbl' \<Rightarrow>
                    (case select_reservation reservation_id tbl' of
                       None \<Rightarrow> (Inl TypeError, db)
                     | Some row \<Rightarrow> response row (db\<lparr>tbl_reservations := tbl'\<rparr>))))"

definition delete_reservation :: "int \<Rightarrow> database \<Rightarrow> (error + unit) \<times> database" where
  "delete_reservation reservation_id db =
     (case select_reservation reservation_id (tbl_reservations db) of
        None \<Rightarrow> (Inl (HTTPException 404 ''Reservation not found''), db)
      | Some _ \<Rightarrow>
          (Inr (), db\<lparr>tbl_reservations :=
                        filter (\<lambda>r. rsv_id r \<noteq> reservation_id) (tbl_reservations db)\<rparr>))"

subsection \<open>routers/reviews.py\<close>

text \<open>
  \<^verbatim>\<open>if min_rating: query += " AND rating >= ?"; params.append(min_rating)\<close> for an
  \<^verbatim>\<open>Optional[int]\<close>: \<^verbatim>\<open>None\<close> and 0 are both false.
\<close>

fun add_int_filter ::
  "string \<Rightarrow> int option \<Rightarrow> string \<times> sql_value list \<Rightarrow> string \<times> sql_value list" where
  "add_int_filter clause None (query, params) = (query, params)"
| "add_int_filter clause (Some n) (query, params) =
     (if n = 0 then (query, params) else (query @ clause, params @ [SqlInt n]))"

text \<open>\<^verbatim>\<open>str.upper()\<close> on ASCII letters.\<close>

definition upper_char :: "char \<Rightarrow> char" where
  "upper_char c =
     (case map_of (zip ''abcdefghijklmnopqrstuvwxyz'' ''ABCDEFGHIJKLMNOPQRSTUVWXYZ'') c of
        None \<Rightarrow> c
      | Some u \<Rightarrow> u)"

definition upper :: "string \<Rightarrow> string" where
  "upper s = map upper_char s"

definition get_reviews_query ::
  "string option \<Rightarrow> int option \<Rightarrow> string \<Rightarrow> string \<Rightarrow> string \<times> sql_value list" where
  "get_reviews_query restaurant_id min_rating sort_by order =
     (let (query, params) =
            add_text_filter '' AND restaurant_id = ?'' restaurant_id
              (''SELECT * FROM reviews WHERE 1=1'', []);
          (query, params) = add_int_filter '' AND rating >= ?'' min_rating (query, params)
      in (query @ '' ORDER BY '' @ sort_by @ '' '' @ upper order, params))"

definition get_reviews_stats_query :: "string option \<Rightarrow> string \<times> sql_value list" where
  "get_reviews_stats_query restaurant_id =
     add_text_filter '' WHERE restaurant_id = ?'' restaurant_id
       (''SELECT AVG(rating) as avg_rating, COUNT(*) as total_reviews FROM reviews'', [])"

fun where_reviews :: "bool \<Rightarrow> bool \<Rightarrow> sql_value list \<Rightarrow> (Review \<Rightarrow> bool) option" where
  "where_reviews False False [] = Some (\<lambda>r. True)"
| "where_reviews True False [SqlText a] = Some (\<lambda>r. rev_restaurant_id r = a)"
| "where_reviews False True [SqlInt n] = Some (\<lambda>r. n \<le> rev_rating r)"
| "where_reviews True True [SqlText a, SqlInt n] =
     Some (\<lambda>r. rev_restaurant_id r = a \<and> n \<le> rev_rating r)"
| "where_reviews _ _ _ = None"

definition order_by_reviews :: "string \<Rightarrow> (Review list \<Rightarrow> Review list) option" where
  "order_by_reviews s =
     (if s = '' ORDER BY created_at DESC'' then Some (order_by_desc rev_created_at)
      else if s = '' ORDER BY created_at ASC'' then Some (order_by_asc rev_created_at)
      else if s = '' ORDER BY rating DESC'' then Some (order_by_desc rev_rating)
      else if s = '' ORDER BY rating ASC'' then Some (order_by_asc rev_rating)
      else None)"

text \<open>
  The statement of \<open>get_reviews\<close>. Its plan depends on the clauses: SQLite reads the
  matching rows from the table or through \<^verbatim>\<open>idx_reviews_restaurant\<close> or
  \<^verbatim>\<open>idx_reviews_rating\<close>, so rows with equal sort keys come in the order of that scan,
  the argument \<open>rank\<close>.
\<close>

definition execute_select_reviews ::
  "(Review \<Rightarrow> int) \<Rightarrow> string \<Rightarrow> sql_value list \<Rightarrow> Review list \<Rightarrow> Review list option" where
  "execute_select_reviews rank sql params tbl =
     (case strip_prefix ''SELECT * FROM reviews WHERE 1=1'' sql of
        None \<Rightarrow> None
      | Some s0 \<Rightarrow>
          (let (by_restaurant, s1) = opt_clause '' AND restaurant_id = ?'' s0;
               (by_rating, s2) = opt_clause '' AND rating >= ?'' s1
           in case where_reviews by_restaurant by_rating params of
                None \<Rightarrow> None
              | Some P \<Rightarrow>
                  (case order_by_reviews s2 of
                     None \<Rightarrow> None
                   | Some ordered \<Rightarrow> Some (ordered (scan rank (filter P tbl))))))"

text \<open>
  The aggregates of the statistics query: \<^verbatim>\<open>AVG\<close> is \<^verbatim>\<open>NULL\<close> over no rows and
  otherwise the double that the division of the sum by the count gives (sum and count are
  integers, exact as doubles below \<open>2 ^ 53\<close>); \<^verbatim>\<open>COUNT(*)\<close> is the number of rows.
\<close>

definition AVG :: "int list \<Rightarrow> rat option" where
  "AVG xs =
     (if xs = [] then None
      else Some (to_double (of_int (sum_list xs) / of_int (int (length xs)))))"

definition COUNT :: "'a list \<Rightarrow> int" where
  "COUNT xs = int (length xs)"

definition execute_select_stats ::
  "string \<Rightarrow> sql_value list \<Rightarrow> Review list \<Rightarrow> (rat option \<times> int) option" where
  "execute_select_stats sql params tbl =
     (case strip_prefix ''SELECT AVG(rating) as avg_rating, COUNT(*) as total_reviews FROM reviews'' sql of
        None \<Rightarrow> None
      | Some s \<Rightarrow>
          (if s = [] then
             (case params of
                [] \<Rightarrow> Some (AVG (map rev_rating tbl), COUNT tbl)
              | _ \<Rightarrow> None)
           else if s = '' WHERE restaurant_id = ?'' then
             (case params of
                [SqlText a] \<Rightarrow>
                  (let rows = filter (\<lambda>r. rev_restaurant_id r = a) tbl
                   in Some (AVG (map rev_rating rows), COUNT rows))
              | _ \<Rightarrow> None)
           else None))"

text \<open>
  Python's \<^verbatim>\<open>round(x, ndigits)\<close> of a double \<open>x\<close>: the decimal with \<open>ndigits\<close> places
  nearest to the value of \<open>x\<close>, a tie going to the even one, converted back to a double.
\<close>

definition round_py :: "rat \<Rightarrow> nat \<Rightarrow> rat" where
  "round_py x ndigits =
     to_double (of_int (round_half_even (x * 10 ^ ndigits)) / 10 ^ ndigits)"

text \<open>
  \<^verbatim>\<open>ReviewStats(avg_rating=round(a, 2) if a else None, total_reviews=n)\<close>: \<^verbatim>\<open>None\<close>
  and 0.0 are both false.
\<close>

definition make_stats :: "rat option \<Rightarrow> int \<Rightarrow> ReviewStats" where
  "make_stats a n =
     \<lparr>avg_rating = (case a of None \<Rightarrow> None | Some x \<Rightarrow> if x = 0 then None else Some (round_py x 2)),
      total_reviews = n\<rparr>"

text \<open>
  The query parameters of \<^verbatim>\<open>get_reviews\<close>: \<^verbatim>\<open>min_rating\<close> has \<^verbatim>\<open>ge=1, le=5\<close>;
  \<^verbatim>\<open>sort_by\<close> defaults to \<^verbatim>\<open>"created_at"\<close> and must match \<^verbatim>\<open>^(created_at|rating)$\<close>;
  \<^verbatim>\<open>order\<close> defaults to \<^verbatim>\<open>"desc"\<close> and must match \<^verbatim>\<open>^(asc|desc)$\<close>. A parameter
  that the request does not give is \<open>None\<close>.
\<close>

definition query_default :: "'a \<Rightarrow> 'a option \<Rightarrow> 'a" where
  "query_default d v = (case v of None \<Rightarrow> d | Some x \<Rightarrow> x)"

definition get_reviews_params_valid :: "int option \<Rightarrow> string \<Rightarrow> string \<Rightarrow> bool" where
  "get_reviews_params_valid min_rating sort_by order \<longleftrightarrow>
     (case min_rating of None \<Rightarrow> True | Some n \<Rightarrow> 1 \<le> n \<and> n \<le> 5) \<and>
     (sort_by = ''created_at'' \<or> sort_by = ''rating'') \<and>
     (order = ''asc'' \<or> order = ''desc'')"

definition get_reviews ::
  "(Review \<Rightarrow> int) \<Rightarrow> string option \<Rightarrow> int option \<Rightarrow> string option \<Rightarrow> string option \<Rightarrow>
     database \<Rightarrow> (error + ReviewsWithStats) \<times> database" where
  "get_reviews rank restaurant_id min_rating sort_by_param order_param db =
     (let sort_by = query_default ''created_at'' sort_by_param;
          order = query_default ''desc'' order_param
      in if \<not> get_reviews_params_valid min_rating sort_by order then (Inl RequestValidationError, db)
         else (let (query, params) = get_reviews_query restaurant_id min_rating sort_by order
               in case execute_select_reviews rank query params (tbl_reviews db) of
                    None \<Rightarrow> (Inl OperationalError, db)
                  | Some rows \<Rightarrow>
                      (let (stats_query, stats_params) = get_reviews_stats_query restaurant_id
                       in case execute_select_stats stats_query stats_params (tbl_reviews db) of
                            None \<Rightarrow> (Inl OperationalError, db)
                          | Some (a, n) \<Rightarrow> (Inr \<lparr>reviews = rows, stats = make_stats a n\<rparr>, db))))"

definition select_review :: "int \<Rightarrow> Review list \<Rightarrow> Review option" where
  "select_review review_id tbl = find (\<lambda>r. rev_id r = review_id) tbl"

definition get_review :: "int \<Rightarrow> database \<Rightarrow> (error + Review) \<times> database" where
  "get_review review_id db =
     (case select_review review_id (tbl_reviews db) of
        None \<Rightarrow> (Inl (HTTPException 404 ''Review not found''), db)
      | Some row \<Rightarrow> (Inr row, db))"

text \<open>
  The \<^verbatim>\<open>INSERT\<close> of \<^verbatim>\<open>create_review\<close>; the table's
  \<^verbatim>\<open>CHECK (rating >= 1 AND rating <= 5)\<close> fails the statement (\<open>None\<close>).
\<close>

definition rating_check :: "int \<Rightarrow> bool" where
  "rating_check rating \<longleftrightarrow> 1 \<le> rating \<and> rating \<le> 5"

definition insert_review :: "string \<Rightarrow> ReviewCreate \<Rightarrow> database \<Rightarrow> (int \<times> database) option" where
  "insert_review now review db =
     (if \<not> rating_check (rvc_rating review) then None
      else (let rowid = next_rowid (seq_reviews db) (map rev_id (tbl_reviews db));
                row = \<lparr>rev_id = rowid,
                       rev_restaurant_id = rvc_restaurant_id review,
                       rev_reviewer_name = rvc_reviewer_name review,
                       rev_reviewer_email = rvc_reviewer_email review,
                       rev_rating = rvc_rating review,
                       rev_title = rvc_title review,
                       rev_comment = rvc_comment review,
                       rev_visit_date = rvc_visit_date review,
                       rev_created_at = now\<rparr>
            in Some (rowid, db\<lparr>tbl_reviews := tbl_reviews db @ [row], seq_reviews := rowid\<rparr>)))"

definition create_review ::
  "(string \<Rightarrow> bool) \<Rightarrow> string \<Rightarrow> ReviewCreate \<Rightarrow> database \<Rightarrow> (error + Review) \<times> database" where
  "create_review email_ok now review db =
     (if \<not> ReviewCreate_valid email_ok review then (Inl RequestValidationError, db)
      else case insert_review now review db of
        None \<Rightarrow> (Inl IntegrityError, db)
      | Some (review_id, db') \<Rightarrow>
          (case select_review review_id (tbl_reviews db') of
             None \<Rightarrow> (Inl TypeError, db)
           | Some row \<Rightarrow> (Inr row, db')))"

definition delete_review :: "int \<Rightarrow> database \<Rightarrow> (error + unit) \<times> database" where
  "delete_review review_id db =
     (case select_review review_id (tbl_reviews db) of
        None \<Rightarrow> (Inl (HTTPException 404 ''Review not found''), db)
      | Some _ \<Rightarrow>
          (Inr (), db\<lparr>tbl_reviews := filter (\<lambda>r. rev_id r \<noteq> review_id) (tbl_reviews db)\<rparr>))"

text \<open>
  The constraint that the schema puts on every stored review. It holds in the empty
  database and every path function keeps it (lemmas \<open>reviews_checked_\<dots>\<close> below).
\<close>

definition reviews_checked :: "database \<Rightarrow> bool" where
  "reviews_checked db \<longleftrightarrow> list_all (\<lambda>r. rating_check (rev_rating r)) (tbl_reviews db)"

subsection \<open>The JSON of a reviews response\<close>

text \<open>
  FastAPI serialises the \<^verbatim>\<open>ReviewsWithStats\<close> that \<^verbatim>\<open>get_reviews\<close> returns: an object
  whose keys are the attribute names of the pydantic classes, in their order; an
  \<^verbatim>\<open>Optional\<close> attribute that is \<^verbatim>\<open>None\<close> becomes \<^verbatim>\<open>null\<close>.
\<close>

datatype json =
    JNull
  | JInt int
  | JNumber rat
  | JString string
  | JArray "json list"
  | JObject "(string \<times> json) list"

definition json_opt :: "('a \<Rightarrow> json) \<Rightarrow> 'a option \<Rightarrow> json" where
  "json_opt f v = (case v of None \<Rightarrow> JNull | Some x \<Rightarrow> f x)"

definition ReviewResponse_json :: "Review \<Rightarrow> json" where
  "ReviewResponse_json r =
     JObject [(''id'', JInt (rev_id r)),
              (''restaurant_id'', JString (rev_restaurant_id r)),
              (''reviewer_name'', JString (rev_reviewer_name r)),
              (''reviewer_email'', json_opt JString (rev_reviewer_email r)),
              (''rating'', JInt (rev_rating r)),
              (''title'', json_opt JString (rev_title r)),
              (''comment'', json_opt JString (rev_comment r)),
              (''visit_date'', json_opt JString (rev_visit_date r)),
              (''created_at'', JString (rev_created_at r))]"

definition ReviewStats_json :: "ReviewStats \<Rightarrow> json" where
  "ReviewStats_json s =
     JObject [(''avg_rating'', json_opt JNumber (avg_rating s)),
              (''total_reviews'', JInt (total_reviews s))]"

definition ReviewsWithStats_json :: "ReviewsWithStats \<Rightarrow> json" where
  "ReviewsWithStats_json w =
     JObject [(''reviews'', JArray (map ReviewResponse_json (reviews w))),
              (''stats'', ReviewStats_json (stats w))]"

subsection \<open>Example data\<close>

text \<open>
  Concrete requests, rows and database states on which the theorems below are run. The
  states are those that the requests produce from the empty database (lemmas
  \<open>example_db_created\<close>, \<open>example_db3_created\<close>, \<open>example_reviews_db_created\<close>).
\<close>

definition example_reservation :: ReservationCreate where
  "example_reservation =
     \<lparr>rc_restaurant_id = ''r1'', rc_customer_name = ''A'', rc_customer_email = ''a@x.com'',
      rc_customer_phone = None, rc_party_size = 4, rc_reservation_date = ''2024-12-25'',
      rc_reservation_time = ''19:00'', rc_notes = None\<rparr>"

definition example_row :: Reservation where
  "example_row =
     \<lparr>rsv_id = 1, rsv_restaurant_id = ''r1'', rsv_customer_name = ''A'',
      rsv_customer_email = ''a@x.com'', rsv_customer_phone = None, rsv_party_size = 4,
      rsv_reservation_date = ''2024-12-25'', rsv_reservation_time = ''19:00'',
      rsv_status = Some ''pending'', rsv_notes = None,
      rsv_created_at = ''2024-12-01 09:30:00'', rsv_updated_at = ''2024-12-01 09:30:00''\<rparr>"

definition example_row2 :: Reservation where
  "example_row2 =
     example_row\<lparr>rsv_id := 2, rsv_restaurant_id := ''r2'',
       rsv_reservation_date := ''2024-12-24'', rsv_reservation_time := ''20:00''\<rparr>"

definition example_row3 :: Reservation where
  "example_row3 =
     example_row\<lparr>rsv_id := 3, rsv_reservation_time := ''18:30'',
       rsv_status := Some ''confirmed'', rsv_updated_at := ''2024-12-02 08:00:00''\<rparr>"

definition example_db :: database where
  "example_db =
     \<lparr>tbl_reservations = [example_row], seq_reservations = 1, tbl_reviews = [], seq_reviews = 0\<rparr>"

definition example_db3 :: database where
  "example_db3 =
     \<lparr>tbl_reservations = [example_row, example_row2, example_row3], seq_reservations = 3,
      tbl_reviews = [], seq_reviews = 0\<rparr>"

definition example_review_create :: ReviewCreate where
  "example_review_create =
     \<lparr>rvc_restaurant_id = ''r1'', rvc_reviewer_name = ''Jane Doe'', rvc_reviewer_email = None,
      rvc_rating = 5, rvc_title = Some ''Amazing food!'', rvc_comment = None,
      rvc_visit_date = None\<rparr>"

definition example_review :: Review where
  "example_review =
     \<lparr>rev_id = 1, rev_restaurant_id = ''r1'', rev_reviewer_name = ''Jane Doe'',
      rev_reviewer_email = None, rev_rating = 5, rev_title = Some ''Amazing food!'',
      rev_comment = None, rev_visit_date = None, rev_created_at = ''2024-11-01 12:00:00''\<rparr>"

definition example_review2 :: Review where
  "example_review2 =
     example_review\<lparr>rev_id := 2, rev_rating := 3, rev_created_at := ''2024-11-02 12:00:00''\<rparr>"

definition example_review3 :: Review where
  "example_review3 =
     example_review\<lparr>rev_id := 3, rev_rating := 4, rev_created_at := ''2024-11-02 12:00:00''\<rparr>"

definition example_review4 :: Review where
  "example_review4 =
     example_review\<lparr>rev_id := 4, rev_restaurant_id := ''r2'', rev_rating := 1,
       rev_created_at := ''2024-11-03 08:00:00''\<rparr>"

definition example_reviews_db :: database where
  "example_reviews_db =
     \<lparr>tbl_reservations = [], seq_reservations = 0,
      tbl_reviews = [example_review, example_review2, example_review3, example_review4],
      seq_reviews = 4\<rparr>"


section \<open>Properties\<close>

subsection \<open>Rowids and single rows\<close>

text \<open>
  An inserted row gets a rowid above every rowid of the table, so the \<^verbatim>\<open>SELECT\<close> by
  \<^verbatim>\<open>lastrowid\<close> that follows the insert finds the new row.
\<close>

lemma fold_max_ge_init: "seq \<le> fold max ids (seq::int)"
  by (induction ids arbitrary: seq) (auto intro: order_trans [OF max.cobounded2])

lemma fold_max_ge_mem: "i \<in> set ids \<Longrightarrow> i \<le> fold max ids (seq::int)"
proof (induction ids arbitrary: seq)
  case Nil
  then show ?case by simp
next
  case (Cons a ids)
  show ?case
  proof (cases "i = a")
    case True
    have "a \<le> max a seq" by simp
    also have "\<dots> \<le> fold max ids (max a seq)" by (rule fold_max_ge_init)
    finally show ?thesis using True by simp
  next
    case False
    with Cons show ?thesis by simp
  qed
qed

lemma next_rowid_fresh: "i \<in> set ids \<Longrightarrow> i < next_rowid seq ids"
  using fold_max_ge_mem [of i ids seq] by (simp add: next_rowid_def)

lemma next_rowid_above_seq: "seq < next_rowid seq ids"
  using fold_max_ge_init [of seq ids] by (simp add: next_rowid_def)

lemma find_append_new:
  "\<forall>x \<in> set xs. \<not> P x \<Longrightarrow> P y \<Longrightarrow> find P (xs @ [y]) = Some y"
  by (induction xs) auto

lemma select_inserted_reservation:
  assumes "rsv_id row = next_rowid seq (map rsv_id tbl)"
  shows "select_reservation (next_rowid seq (map rsv_id tbl)) (tbl @ [row]) = Some row"
proof -
  have "rsv_id x \<noteq> next_rowid seq (map rsv_id tbl)" if "x \<in> set tbl" for x
    using next_rowid_fresh [of "rsv_id x" "map rsv_id tbl" seq] that by auto
  then show ?thesis
    unfolding select_reservation_def using assms by (intro find_append_new) auto
qed

lemma create_reservation_valid:
  assumes "ReservationCreate_valid email_ok rc"
  shows "create_reservation email_ok now rc db =
           (Inr \<lparr>rsv_id = next_rowid (seq_reservations db) (map rsv_id (tbl_reservations db)),
                 rsv_restaurant_id = rc_restaurant_id rc,
                 rsv_customer_name = rc_customer_name rc,
                 rsv_customer_email = rc_customer_email rc,
                 rsv_customer_phone = rc_customer_phone rc,
                 rsv_party_size = rc_party_size rc,
                 rsv_reservation_date = rc_reservation_date rc,
                 rsv_reservation_time = rc_reservation_time rc,
                 rsv_status = Some ''pending'',
                 rsv_notes = rc_notes rc,
                 rsv_created_at = now,
                 rsv_updated_at = now\<rparr>,
            snd (insert_reservation now rc db))"
  using assms
  by (simp add: create_reservation_def insert_reservation_def Let_def select_inserted_reservation
      response_def ReservationResponse_valid_def)

subsection \<open>Updates\<close>

text \<open>
  When \<open>update_row\<close> succeeds on every row, the \<^verbatim>\<open>UPDATE\<close> rewrites the rows of the given
  id and the \<^verbatim>\<open>SELECT\<close> that follows returns the rewritten row; a failed update returns the
  database it was given. The lemmas \<open>update_only_\<dots>\<close> instantiate this for an update with
  a single field set.
\<close>

lemma those_map_total: "(\<And>x. f x = Some (g x)) \<Longrightarrow> those (map f xs) = Some (map g xs)"
  by (induction xs) auto

lemma find_map_same_key:
  assumes "find (\<lambda>x. key x = k) xs = Some r" and "\<And>x. key (g x) = key x"
  shows "find (\<lambda>x. key x = k) (map g xs) = Some (g r)"
  using assms by (induction xs) (auto split: if_splits)

lemma update_reservation_total:
  assumes found: "select_reservation i (tbl_reservations db) = Some r"
    and valid: "ReservationUpdate_valid email_ok u"
    and keys: "update_data u \<noteq> []"
    and row: "\<And>x. update_row u now x = Some (g x)"
    and key: "\<And>x. rsv_id (g x) = rsv_id x"
  shows "update_reservation email_ok now i u db =
           response (g r)
             (db\<lparr>tbl_reservations := map (\<lambda>x. if rsv_id x = i then g x else x) (tbl_reservations db)\<rparr>)"
proof -
  let ?h = "\<lambda>x. if rsv_id x = i then g x else x"
  have "execute_update u now i (tbl_reservations db) = Some (map ?h (tbl_reservations db))"
    unfolding execute_update_def by (rule those_map_total) (simp add: row)
  moreover have "select_reservation i (map ?h (tbl_reservations db)) = Some (?h r)"
    using found unfolding select_reservation_def
    by (rule find_map_same_key) (simp add: key)
  moreover have "rsv_id r = i"
    using found unfolding select_reservation_def by (auto dest: find_Some_iff [THEN iffD1])
  ultimately show ?thesis
    using found valid keys by (simp add: update_reservation_def)
qed

lemma update_empty:
  assumes "select_reservation i (tbl_reservations db) = Some r"
  shows "update_reservation email_ok now i ReservationUpdate_empty db = (Inl (HTTPException 400 ''No fields to update''), db)"
  using assms by (simp add: update_reservation_def ReservationUpdate_empty_def ReservationUpdate_valid_def update_data_def)

lemma update_reservation_error_unchanged:
  assumes "update_reservation email_ok now reservation_id u db = (Inl e, db')"
    and "e \<noteq> ResponseValidationError"
  shows "db' = db"
  using assms
  by (auto simp: update_reservation_def response_def split: option.splits if_splits)

lemma update_only_customer_name:
  assumes "select_reservation i (tbl_reservations db) = Some r"
  shows "update_reservation email_ok now i (ReservationUpdate_empty\<lparr>ru_customer_name := FieldSet (Some name)\<rparr>) db =
     response (r\<lparr>rsv_customer_name := name, rsv_updated_at := now\<rparr>)
      (db\<lparr>tbl_reservations :=
           map (\<lambda>x. if rsv_id x = i then x\<lparr>rsv_customer_name := name, rsv_updated_at := now\<rparr> else x)
             (tbl_reservations db)\<rparr>)"
  by (rule update_reservation_total [OF assms(1)])
     (simp_all add: assms ReservationUpdate_empty_def ReservationUpdate_valid_def update_data_def
        update_row_def)

lemma update_only_customer_email:
  assumes "select_reservation i (tbl_reservations db) = Some r"
    and "email_ok email"
  shows "update_reservation email_ok now i (ReservationUpdate_empty\<lparr>ru_customer_email := FieldSet (Some email)\<rparr>) db =
     response (r\<lparr>rsv_customer_email := email, rsv_updated_at := now\<rparr>)
      (db\<lparr>tbl_reservations :=
           map (\<lambda>x. if rsv_id x = i then x\<lparr>rsv_customer_email := email, rsv_updated_at := now\<rparr> else x)
             (tbl_reservations db)\<rparr>)"
  by (rule update_reservation_total [OF assms(1)])
     (simp_all add: assms ReservationUpdate_empty_def ReservationUpdate_valid_def update_data_def
        update_row_def)

lemma update_only_customer_phone:
  assumes "select_reservation i (tbl_reservations db) = Some r"
  shows "update_reservation email_ok now i (ReservationUpdate_empty\<lparr>ru_customer_phone := FieldSet phone\<rparr>) db =
     response (r\<lparr>rsv_customer_phone := phone, rsv_updated_at := now\<rparr>)
      (db\<lparr>tbl_reservations :=
           map (\<lambda>x. if rsv_id x = i then x\<lparr>rsv_customer_phone := phone, rsv_updated_at := now\<rparr> else x)
             (tbl_reservations db)\<rparr>)"
  by (rule update_reservation_total [OF assms(1)])
     (simp_all add: assms ReservationUpdate_empty_def ReservationUpdate_valid_def update_data_def
        update_row_def)

lemma update_only_party_size:
  assumes "select_reservation i (tbl_reservations db) = Some r"
    and "1 \<le> party_size \<and> party_size \<le> 20"
  shows "update_reservation email_ok now i (ReservationUpdate_empty\<lparr>ru_party_size := FieldSet (Some party_size)\<rparr>) db =
     response (r\<lparr>rsv_party_size := party_size, rsv_updated_at := now\<rparr>)
      (db\<lparr>tbl_reservations :=
           map (\<lambda>x. if rsv_id x = i then x\<lparr>rsv_party_size := party_size, rsv_updated_at := now\<rparr> else x)
             (tbl_reservations db)\<rparr>)"
  by (rule update_reservation_total [OF assms(1)])
     (simp_all add: assms ReservationUpdate_empty_def ReservationUpdate_valid_def update_data_def
        update_row_def)

lemma update_only_reservation_date:
  assumes "select_reservation i (tbl_reservations db) = Some r"
  shows "update_reservation email_ok now i (ReservationUpdate_empty\<lparr>ru_reservation_date := FieldSet (Some date)\<rparr>) db =
     response (r\<lparr>rsv_reservation_date := date, rsv_updated_at := now\<rparr>)
      (db\<lparr>tbl_reservations :=
           map (\<lambda>x. if rsv_id x = i then x\<lparr>rsv_reservation_date := date, rsv_updated_at := now\<rparr> else x)
             (tbl_reservations db)\<rparr>)"
  by (rule update_reservation_total [OF assms(1)])
     (simp_all add: assms ReservationUpdate_empty_def ReservationUpdate_valid_def update_data_def
        update_row_def)

lemma update_only_reservation_time:
  assumes "select_reservation i (tbl_reservations db) = Some r"
  shows "update_reservation email_ok now i (ReservationUpdate_empty\<lparr>ru_reservation_time := FieldSet (Some time)\<rparr>) db =
     response (r\<lparr>rsv_reservation_time := time, rsv_updated_at := now\<rparr>)
      (db\<lparr>tbl_reservations :=
           map (\<lambda>x. if rsv_id x = i then x\<lparr>rsv_reservation_time := time, rsv_updated_at := now\<rparr> else x)
             (tbl_reservations db)\<rparr>)"
  by (rule update_reservation_total [OF assms(1)])
     (simp_all add: assms ReservationUpdate_empty_def ReservationUpdate_valid_def update_data_def
        update_row_def)

lemma update_only_status:
  assumes "select_reservation i (tbl_reservations db) = Some r"
  shows "update_reservation email_ok now i (ReservationUpdate_empty\<lparr>ru_status := FieldSet st\<rparr>) db =
     response (r\<lparr>rsv_status := map_option status_value st, rsv_updated_at := now\<rparr>)
      (db\<lparr>tbl_reservations :=
           map (\<lambda>x. if rsv_id x = i then x\<lparr>rsv_status := map_option status_value st, rsv_updated_at := now\<rparr> else x)
             (tbl_reservations db)\<rparr>)"
  by (rule update_reservation_total [OF assms(1)])
     (simp_all add: assms ReservationUpdate_empty_def ReservationUpdate_valid_def update_data_def
        update_row_def)

lemma update_only_notes:
  assumes "select_reservation i (tbl_reservations db) = Some r"
  shows "update_reservation email_ok now i (ReservationUpdate_empty\<lparr>ru_notes := FieldSet notes\<rparr>) db =
     response (r\<lparr>rsv_notes := notes, rsv_updated_at := now\<rparr>)
      (db\<lparr>tbl_reservations :=
           map (\<lambda>x. if rsv_id x = i then x\<lparr>rsv_notes := notes, rsv_updated_at := now\<rparr> else x)
             (tbl_reservations db)\<rparr>)"
  by (rule update_reservation_total [OF assms(1)])
     (simp_all add: assms ReservationUpdate_empty_def ReservationUpdate_valid_def update_data_def
        update_row_def)

subsection \<open>The statements of the list endpoints\<close>


text \<open>
  The same for \<open>get_reviews\<close>: for valid query parameters the \<^verbatim>\<open>ORDER BY\<close> clause is one
  of four texts, and the two statements compute the sorted filter and the aggregate.
\<close>

lemma upper_asc: "upper ''asc'' = ''ASC''"
  by (simp add: upper_def upper_char_def)

lemma upper_desc: "upper ''desc'' = ''DESC''"
  by (simp add: upper_def upper_char_def)

lemma order_by_created_at_desc:
  "order_by_reviews ('' ORDER BY '' @ ''created_at'' @ '' '' @ upper ''desc'') = Some (order_by_desc rev_created_at)"
  by (simp add: upper_desc order_by_reviews_def)

lemma order_by_created_at_asc:
  "order_by_reviews ('' ORDER BY '' @ ''created_at'' @ '' '' @ upper ''asc'') = Some (order_by_asc rev_created_at)"
  by (simp add: upper_asc order_by_reviews_def)

lemma order_by_rating_desc:
  "order_by_reviews ('' ORDER BY '' @ ''rating'' @ '' '' @ upper ''desc'') = Some (order_by_desc rev_rating)"
  by (simp add: upper_desc order_by_reviews_def)

lemma order_by_rating_asc:
  "order_by_reviews ('' ORDER BY '' @ ''rating'' @ '' '' @ upper ''asc'') = Some (order_by_asc rev_rating)"
  by (simp add: upper_asc order_by_reviews_def)

lemma order_by_reviews_valid:
  assumes "sort_by = ''created_at'' \<or> sort_by = ''rating''" "order = ''asc'' \<or> order = ''desc''"
  shows "order_by_reviews ('' ORDER BY '' @ sort_by @ '' '' @ upper order) =
           Some (if sort_by = ''created_at''
                 then (if order = ''desc'' then order_by_desc rev_created_at else order_by_asc rev_created_at)
                 else (if order = ''desc'' then order_by_desc rev_rating else order_by_asc rev_rating))"
proof -
  consider "sort_by = ''created_at''" "order = ''desc''" | "sort_by = ''created_at''" "order = ''asc''"
    | "sort_by = ''rating''" "order = ''desc''" | "sort_by = ''rating''" "order = ''asc''"
    using assms by blast
  then show ?thesis
  proof cases
    case 1 then show ?thesis using order_by_created_at_desc by simp
  next
    case 2 then show ?thesis using order_by_created_at_asc by simp
  next
    case 3 then show ?thesis using order_by_rating_desc by simp
  next
    case 4 then show ?thesis using order_by_rating_asc by simp
  qed
qed

lemma execute_select_reviews_text:
  assumes "strip_prefix '' AND restaurant_id = ?'' tail = None"
    and "strip_prefix '' AND rating >= ?'' tail = None"
  shows "execute_select_reviews rank
     (''SELECT * FROM reviews WHERE 1=1'' @
        (if b1 then '' AND restaurant_id = ?'' else []) @
        (if b2 then '' AND rating >= ?'' else []) @ tail) params tbl =
   (case where_reviews b1 b2 params of
      None \<Rightarrow> None
    | Some P \<Rightarrow>
        (case order_by_reviews tail of
           None \<Rightarrow> None
         | Some ordered \<Rightarrow> Some (ordered (scan rank (filter P tbl)))))"
  using assms
  by (cases b1; cases b2) (simp_all add: execute_select_reviews_def opt_clause_def)

lemma get_reviews_query_text:
  "get_reviews_query restaurant_id min_rating sort_by order =
     (''SELECT * FROM reviews WHERE 1=1'' @
        (if given restaurant_id then '' AND restaurant_id = ?'' else []) @
        (if min_rating \<notin> {None, Some 0} then '' AND rating >= ?'' else []) @
        '' ORDER BY '' @ sort_by @ '' '' @ upper order,
      (case restaurant_id of None \<Rightarrow> [] | Some v \<Rightarrow> if v = [] then [] else [SqlText v]) @
      (case min_rating of None \<Rightarrow> [] | Some n \<Rightarrow> if n = 0 then [] else [SqlInt n]))"
  by (cases restaurant_id; cases min_rating) (simp_all add: get_reviews_query_def given_def)

lemma where_reviews_bound:
  "where_reviews (given restaurant_id) (min_rating \<notin> {None, Some 0})
     ((case restaurant_id of None \<Rightarrow> [] | Some v \<Rightarrow> if v = [] then [] else [SqlText v]) @
      (case min_rating of None \<Rightarrow> [] | Some n \<Rightarrow> if n = 0 then [] else [SqlInt n])) =
   Some (\<lambda>r. (given restaurant_id \<longrightarrow> Some (rev_restaurant_id r) = restaurant_id) \<and>
              (\<forall>n. min_rating = Some n \<longrightarrow> n \<noteq> 0 \<longrightarrow> n \<le> rev_rating r))"
  by (cases restaurant_id; cases min_rating) (auto simp: given_def)

lemma execute_select_stats_eq:
  "(case get_reviews_stats_query restaurant_id of
      (q, ps) \<Rightarrow> execute_select_stats q ps tbl) =
   Some (let rows = filter (\<lambda>r. given restaurant_id \<longrightarrow> Some (rev_restaurant_id r) = restaurant_id) tbl
         in (AVG (map rev_rating rows), COUNT rows))"
  by (cases restaurant_id)
     (auto simp: get_reviews_stats_query_def execute_select_stats_def given_def Let_def)

lemma execute_select_reviews_eq:
  assumes sb: "sort_by = ''created_at'' \<or> sort_by = ''rating''"
    and ord: "order = ''asc'' \<or> order = ''desc''"
    and mr: "min_rating \<noteq> Some 0"
  shows "(case get_reviews_query restaurant_id min_rating sort_by order of
            (q, ps) \<Rightarrow> execute_select_reviews rank q ps tbl) =
        Some ((if sort_by = ''created_at''
             then (if order = ''desc'' then order_by_desc rev_created_at else order_by_asc rev_created_at)
             else (if order = ''desc'' then order_by_desc rev_rating else order_by_asc rev_rating))
              (scan rank
                 (filter (\<lambda>r. (given restaurant_id \<longrightarrow> Some (rev_restaurant_id r) = restaurant_id) \<and>
                               (\<forall>n. min_rating = Some n \<longrightarrow> n \<le> rev_rating r)) tbl)))"
proof -
  let ?tail = "'' ORDER BY '' @ sort_by @ '' '' @ upper order"
  have P: "(\<lambda>r. (given restaurant_id \<longrightarrow> Some (rev_restaurant_id r) = restaurant_id) \<and>
              (\<forall>n. min_rating = Some n \<longrightarrow> n \<noteq> 0 \<longrightarrow> n \<le> rev_rating r)) =
           (\<lambda>r. (given restaurant_id \<longrightarrow> Some (rev_restaurant_id r) = restaurant_id) \<and>
              (\<forall>n. min_rating = Some n \<longrightarrow> n \<le> rev_rating r))"
    using mr by auto
  have t1: "strip_prefix '' AND restaurant_id = ?'' ?tail = None"
    and t2: "strip_prefix '' AND rating >= ?'' ?tail = None"
    by simp_all
  show ?thesis
    unfolding get_reviews_query_text prod.case
    unfolding execute_select_reviews_text [OF t1 t2] where_reviews_bound P option.case
    unfolding order_by_reviews_valid [OF sb ord] option.case ..
qed

lemma get_reviews_eq:
  assumes "get_reviews_params_valid min_rating (query_default ''created_at'' sort_by)
             (query_default ''desc'' order)"
  shows "get_reviews rank restaurant_id min_rating sort_by order db =
    (Inr \<lparr>reviews =
            (if query_default ''created_at'' sort_by = ''created_at''
             then (if query_default ''desc'' order = ''desc''
                   then order_by_desc rev_created_at else order_by_asc rev_created_at)
             else (if query_default ''desc'' order = ''desc''
                   then order_by_desc rev_rating else order_by_asc rev_rating))
              (scan rank
                 (filter (\<lambda>r. (given restaurant_id \<longrightarrow> Some (rev_restaurant_id r) = restaurant_id) \<and>
                               (\<forall>n. min_rating = Some n \<longrightarrow> n \<le> rev_rating r))
                    (tbl_reviews db))),
           stats =
             make_stats
               (AVG (map rev_rating
                  (filter (\<lambda>r. given restaurant_id \<longrightarrow> Some (rev_restaurant_id r) = restaurant_id)
                     (tbl_reviews db))))
               (COUNT
                  (filter (\<lambda>r. given restaurant_id \<longrightarrow> Some (rev_restaurant_id r) = restaurant_id)
                     (tbl_reviews db)))\<rparr>, db)"
proof -
  let ?sb = "query_default ''created_at'' sort_by" and ?ord = "query_default ''desc'' order"
  have ord: "?sb = ''created_at'' \<or> ?sb = ''rating''" "?ord = ''asc'' \<or> ?ord = ''desc''"
    and mr: "min_rating \<noteq> Some 0"
    using assms by (auto simp: get_reviews_params_valid_def)
  obtain q ps where qp: "get_reviews_query restaurant_id min_rating ?sb ?ord = (q, ps)"
    by fastforce
  obtain sq sps where sqp: "get_reviews_stats_query restaurant_id = (sq, sps)"
    by fastforce
  have e1: "execute_select_reviews rank q ps (tbl_reviews db) =
        Some ((if ?sb = ''created_at''
             then (if ?ord = ''desc'' then order_by_desc rev_created_at else order_by_asc rev_created_at)
             else (if ?ord = ''desc'' then order_by_desc rev_rating else order_by_asc rev_rating))
              (scan rank
                 (filter (\<lambda>r. (given restaurant_id \<longrightarrow> Some (rev_restaurant_id r) = restaurant_id) \<and>
                               (\<forall>n. min_rating = Some n \<longrightarrow> n \<le> rev_rating r)) (tbl_reviews db))))"
    using execute_select_reviews_eq [OF ord mr, where restaurant_id = restaurant_id
      and tbl = "tbl_reviews db" and rank = rank] unfolding qp prod.case .
  have e2: "execute_select_stats sq sps (tbl_reviews db) =
     Some (AVG (map rev_rating
                  (filter (\<lambda>r. given restaurant_id \<longrightarrow> Some (rev_restaurant_id r) = restaurant_id)
                     (tbl_reviews db))),
           COUNT
                  (filter (\<lambda>r. given restaurant_id \<longrightarrow> Some (rev_restaurant_id r) = restaurant_id)
                     (tbl_reviews db)))"
    using execute_select_stats_eq [where restaurant_id = restaurant_id
      and tbl = "tbl_reviews db"] unfolding sqp prod.case Let_def .
  show ?thesis
    unfolding get_reviews_def Let_def
    by (simp only: assms qp sqp e1 e2 prod.case option.case not_True_eq_False if_False simp_thms)
qed

subsection \<open>Order of the results\<close>

lemma sorted_order_by_asc: "sorted (map key (order_by_asc key rows))"
  unfolding order_by_asc_def by (rule sorted_sort_key)


lemma sorted_order_by_desc:
  "sorted_wrt (\<lambda>a b. key b \<le> key a) (order_by_desc key rows)"
proof -
  have "sorted_wrt (\<lambda>a b. key a \<le> key b) (sort_key key (rev rows))"
    using sorted_sort_key [of key "rev rows"] by (simp add: sorted_map)
  then show ?thesis
    unfolding order_by_desc_def by (simp add: sorted_wrt_rev)
qed

lemma mset_scan: "mset (scan rank rows) = mset rows"
  by (simp add: scan_def)

lemma stable_order_by_asc:
  "filter (\<lambda>r. key r = k) (order_by_asc key rows) = filter (\<lambda>r. key r = k) rows"
  unfolding order_by_asc_def by (rule sort_key_stable)

lemma stable_order_by_desc:
  "filter (\<lambda>r. key r = k) (order_by_desc key rows) = filter (\<lambda>r. key r = k) rows"
proof -
  have "filter (\<lambda>r. key r = k) (sort_key key (rev rows)) = filter (\<lambda>r. key r = k) (rev rows)"
    by (rule sort_key_stable)
  then show ?thesis
    unfolding order_by_desc_def by (simp add: rev_filter [symmetric])
qed

lemma length_filter_conj_le:
  "length (filter (\<lambda>x. P x \<and> Q x) xs) \<le> length (filter P xs)"
  by (induction xs) auto

lemma given_Some: "given (Some v) \<longleftrightarrow> v \<noteq> []"
  by (simp add: given_def)

lemma default_params_valid:
  "get_reviews_params_valid None (query_default ''created_at'' None) (query_default ''desc'' None)"
  by (simp add: get_reviews_params_valid_def query_default_def)

subsection \<open>Doubles\<close>

text \<open>
  Rounding to an integer moves a value by at most one half, the binade of a value lies
  below it, and so the conversion to a double has a relative error of at most
  \<open>2 ^ - 53\<close> and keeps the sign.
\<close>

lemma round_half_even_near: "\<bar>of_int (round_half_even x) - x\<bar> \<le> 1 / 2"
proof -
  define d where "d = x - of_int \<lfloor>x\<rfloor>"
  have d: "0 \<le> d" "d < 1"
    unfolding d_def by linarith+
  have "round_half_even x = \<lfloor>x\<rfloor> \<and> d \<le> 1 / 2 \<or> round_half_even x = \<lfloor>x\<rfloor> + 1 \<and> 1 / 2 \<le> d"
    unfolding round_half_even_def Let_def d_def [symmetric] by auto
  then show ?thesis
  proof (elim disjE conjE)
    assume r: "round_half_even x = \<lfloor>x\<rfloor>" and le: "d \<le> 1 / 2"
    have "of_int (round_half_even x) - x = - d"
      unfolding r d_def by simp
    then show ?thesis
      using d le by simp
  next
    assume r: "round_half_even x = \<lfloor>x\<rfloor> + 1" and ge: "1 / 2 \<le> d"
    have "of_int (round_half_even x) - x = 1 - d"
      unfolding r d_def by simp
    then show ?thesis
      using d ge by simp
  qed
qed

lemma binade_lower:
  assumes "x \<noteq> 0"
  shows "2 powi binade x \<le> \<bar>x\<bar>"
proof -
  obtain p q where pq: "quotient_of \<bar>x\<bar> = (p, q)"
    by fastforce
  have q: "0 < q"
    using pq by (rule quotient_of_denom_pos)
  have x: "\<bar>x\<bar> = of_int p / of_int q"
    using pq by (rule quotient_of_div)
  have p: "0 < p"
  proof -
    have "0 < \<bar>x\<bar>" using assms by simp
    then show ?thesis using q unfolding x by (simp add: zero_less_divide_iff)
  qed
  define lp lq where "lp = floorlog 2 (nat p)" and "lq = floorlog 2 (nat q)"
  have lp: "2 ^ (lp - 1) \<le> nat p" and lq: "nat q < 2 ^ lq"
    using floorlog_bounds [of "nat p" 2] floorlog_bounds [of "nat q" 2] p q
    by (simp_all add: lp_def lq_def)
  have lp1: "1 \<le> lp"
    using p by (simp add: lp_def floorlog_def)
  have b: "binade x = (if 2 powi (int lp - int lq) \<le> \<bar>x\<bar> then int lp - int lq else int lp - int lq - 1)"
    by (simp add: binade_def pq lp_def lq_def Let_def)
  have "(2::rat) powi (int lp - int lq - 1) \<le> \<bar>x\<bar>"
  proof -
    have e: "int lp - int lq - 1 = int (lp - 1) - int lq"
      using lp1 by simp
    have "(2::rat) powi (int lp - int lq - 1) = 2 powi int (lp - 1) / 2 powi int lq"
      unfolding e by (simp add: power_int_diff)
    also have "\<dots> = 2 ^ (lp - 1) / 2 ^ lq"
      by (simp only: power_int_of_nat)
    also have "\<dots> \<le> of_int p / of_int q"
    proof (rule frac_le)
      have "of_nat (2 ^ (lp - 1)) \<le> (of_nat (nat p) :: rat)"
        using lp by (simp only: of_nat_le_iff)
      then show "(2::rat) ^ (lp - 1) \<le> of_int p"
        using p by simp
      have "(of_nat (nat q) :: rat) \<le> of_nat (2 ^ lq)"
        using lq by (simp only: of_nat_le_iff less_imp_le)
      then show "(of_int q :: rat) \<le> 2 ^ lq"
        using q by simp
      show "(0::rat) < of_int q"
        using q by simp
    qed (use p in simp)
    finally show ?thesis
      by (simp add: x)
  qed
  then show ?thesis
    unfolding b by simp
qed

lemma to_double_near:
  assumes "x \<noteq> 0"
  shows "\<bar>to_double x - x\<bar> \<le> \<bar>x\<bar> / 2 ^ 53"
proof -
  define ulp :: rat where "ulp = 2 powi (binade x - 52)"
  have ulp: "0 < ulp"
    by (simp add: ulp_def)
  have td: "to_double x = of_int (round_half_even (x / ulp)) * ulp"
    using assms by (simp add: to_double_def ulp_def Let_def)
  have "\<bar>of_int (round_half_even (x / ulp)) - x / ulp\<bar> \<le> 1 / 2"
    by (rule round_half_even_near)
  then have "\<bar>of_int (round_half_even (x / ulp)) - x / ulp\<bar> * ulp \<le> 1 / 2 * ulp"
    using ulp by (intro mult_right_mono) simp_all
  moreover have "\<bar>of_int (round_half_even (x / ulp)) - x / ulp\<bar> * ulp = \<bar>to_double x - x\<bar>"
  proof -
    have "\<bar>of_int (round_half_even (x / ulp)) - x / ulp\<bar> * ulp =
          \<bar>(of_int (round_half_even (x / ulp)) - x / ulp) * ulp\<bar>"
      using ulp by (simp add: abs_mult)
    also have "(of_int (round_half_even (x / ulp)) - x / ulp) * ulp = to_double x - x"
      using ulp by (simp add: td algebra_simps)
    finally show ?thesis .
  qed
  moreover have "1 / 2 * ulp \<le> \<bar>x\<bar> / 2 ^ 53"
  proof -
    have "ulp = 2 powi binade x / 2 ^ 52"
      unfolding ulp_def by (simp add: power_int_diff)
    then have "1 / 2 * ulp = 2 powi binade x / 2 ^ 53"
      by simp
    also have "\<dots> \<le> \<bar>x\<bar> / 2 ^ 53"
      using binade_lower [OF assms] by (intro divide_right_mono) simp_all
    finally show ?thesis .
  qed
  ultimately show ?thesis
    by linarith
qed

lemma to_double_near_0: "\<bar>to_double x - x\<bar> \<le> \<bar>x\<bar> / 2 ^ 53"
proof (cases "x = 0")
  case True
  then show ?thesis
    by (simp add: to_double_def)
next
  case False
  then show ?thesis
    by (rule to_double_near)
qed

lemma to_double_pos:
  assumes "0 < x"
  shows "0 < to_double x"
proof -
  have "\<bar>to_double x - x\<bar> \<le> x / 2 ^ 53"
    using to_double_near_0 [of x] assms by simp
  moreover have "x / 2 ^ 53 < x"
    using assms by (simp add: field_simps)
  ultimately show ?thesis
    by linarith
qed

lemma to_double_4: "to_double 4 = 4"
  by code_simp

lemma round_py_4: "round_py 4 2 = 4"
  by code_simp

lemma to_double_13_4: "to_double (13 / 4) = 13 / 4"
  by code_simp

lemma round_py_13_4: "round_py (13 / 4) 2 = 13 / 4"
  by code_simp

text \<open>
  The mean \<open>43 / 40\<close> of thirty-seven ratings 1 and three ratings 2 is, as a double, just
  below 1.075, and the statistics give the double nearest 1.07 where the exact mean would
  round to 1.08. The double nearest 2.675 rounds to 2.67 in the same way, and 0.125, a
  double itself, goes to the even neighbour 0.12.
\<close>

lemma to_double_43_40: "to_double (43 / 40) = 4841369599423283 / 2 ^ 52"
  by code_simp

lemma stats_mean_43_40:
  "make_stats (AVG (replicate 37 1 @ replicate 3 2)) 40 =
     \<lparr>avg_rating = Some (to_double (107 / 100)), total_reviews = 40\<rparr>"
  by code_simp

lemma round_py_2675: "round_py (to_double (2675 / 1000)) 2 = to_double (267 / 100)"
  by code_simp

lemma round_py_125: "round_py (to_double (125 / 1000)) 2 = to_double (12 / 100)"
  by code_simp

subsection \<open>The rating constraint and the statistics\<close>

text \<open>
  The \<^verbatim>\<open>CHECK\<close> on \<open>rating\<close> holds in the empty database and after every path function,
  so the average over a non-empty set of stored reviews is at least 1 and the test
  \<^verbatim>\<open>if stats_row["avg_rating"]\<close> only fails for \<^verbatim>\<open>NULL\<close>.
\<close>

lemma reviews_checked_init: "reviews_checked (init_database None)"
  by (simp add: reviews_checked_def init_database_def)

lemma reviews_checked_create_review:
  assumes "reviews_checked db"
  shows "reviews_checked (snd (create_review email_ok now review db))"
  using assms
  by (auto simp: create_review_def insert_review_def reviews_checked_def Let_def
      split: option.splits prod.splits if_splits)

lemma reviews_checked_delete_review:
  assumes "reviews_checked db"
  shows "reviews_checked (snd (delete_review review_id db))"
  using assms
  by (auto simp: delete_review_def reviews_checked_def list_all_iff split: option.splits)

lemma reviews_checked_reads:
  "snd (get_reviews rank restaurant_id min_rating sort_by order db) = db"
  "snd (get_review review_id db) = db"
  "snd (get_reservations restaurant_id status db) = db"
  "snd (get_reservation reservation_id db) = db"
  by (auto simp: get_reviews_def get_review_def get_reservations_def get_reservation_def
      response_def Let_def split: option.splits prod.splits)

lemma reviews_checked_reservations:
  "tbl_reviews (snd (create_reservation email_ok now reservation db)) = tbl_reviews db"
  "tbl_reviews (snd (update_reservation email_ok now reservation_id u db)) = tbl_reviews db"
  "tbl_reviews (snd (delete_reservation reservation_id db)) = tbl_reviews db"
  by (auto simp: create_reservation_def insert_reservation_def update_reservation_def
      delete_reservation_def response_def Let_def split: option.splits prod.splits)

lemma checked_ratings:
  "reviews_checked db \<Longrightarrow> \<forall>x \<in> set (map rev_rating (filter P (tbl_reviews db))). rating_check x"
  by (auto simp: reviews_checked_def list_all_iff)

lemma sum_list_ge_length:
  "\<forall>x \<in> set xs. (1::int) \<le> x \<Longrightarrow> int (length xs) \<le> sum_list xs"
  by (induction xs) auto

lemma sum_list_le_length:
  "\<forall>x \<in> set xs. x \<le> (5::int) \<Longrightarrow> sum_list xs \<le> 5 * int (length xs)"
  by (induction xs) auto

lemma mean_checked:
  assumes "\<forall>x \<in> set xs. rating_check x" and "xs \<noteq> []"
  shows "1 \<le> (of_int (sum_list xs) / of_int (int (length xs)) :: rat)"
    and "(of_int (sum_list xs) / of_int (int (length xs)) :: rat) \<le> 5"
proof -
  have n: "0 < int (length xs)"
    using assms(2) by simp
  have lo: "int (length xs) \<le> sum_list xs"
    using assms(1) by (intro sum_list_ge_length) (auto simp: rating_check_def)
  have hi: "sum_list xs \<le> 5 * int (length xs)"
    using assms(1) by (intro sum_list_le_length) (auto simp: rating_check_def)
  have "(of_int (int (length xs)) :: rat) \<le> of_int (sum_list xs)"
    using lo by (simp only: of_int_le_iff)
  then show "1 \<le> (of_int (sum_list xs) / of_int (int (length xs)) :: rat)"
    using n by (simp add: le_divide_eq)
  have "(of_int (sum_list xs) :: rat) \<le> of_int (5 * int (length xs))"
    using hi by (simp only: of_int_le_iff)
  then show "(of_int (sum_list xs) / of_int (int (length xs)) :: rat) \<le> 5"
    using n by (simp add: divide_le_eq)
qed

lemma AVG_checked:
  assumes "\<forall>x \<in> set xs. rating_check x" and "AVG xs = Some a"
  shows "a \<noteq> 0"
proof -
  from assms(2) have ne: "xs \<noteq> []"
    and a: "a = to_double (of_int (sum_list xs) / of_int (int (length xs)))"
    by (auto simp: AVG_def split: if_splits)
  have "0 < (of_int (sum_list xs) / of_int (int (length xs)) :: rat)"
    using mean_checked(1) [OF assms(1) ne] by linarith
  then have "0 < a"
    unfolding a by (rule to_double_pos)
  then show ?thesis
    by simp
qed

lemma make_stats_empty: "make_stats (AVG []) n = \<lparr>avg_rating = None, total_reviews = n\<rparr>"
  by (simp add: make_stats_def AVG_def)

lemma make_stats_checked:
  fixes xs :: "int list"
  defines "mean \<equiv> of_int (sum_list xs) / of_int (int (length xs))"
  assumes checked: "\<forall>x \<in> set xs. rating_check x" and ne: "xs \<noteq> []"
  shows "\<exists>k. make_stats (AVG xs) n =
               \<lparr>avg_rating = Some (to_double (of_int k / 100)), total_reviews = n\<rparr> \<and>
             k = round_half_even (to_double mean * 100) \<and>
             \<bar>of_int k / 100 - mean\<bar> \<le> 1 / 200 + 1 / 2 ^ 50"
proof -
  define a where "a = to_double mean"
  define k where "k = round_half_even (a * 100)"
  have avg: "AVG xs = Some a"
    using ne by (simp add: AVG_def a_def mean_def)
  have "a \<noteq> 0"
    using AVG_checked [OF checked avg] .
  then have st: "make_stats (AVG xs) n =
      \<lparr>avg_rating = Some (to_double (of_int k / 100)), total_reviews = n\<rparr>"
    by (simp add: make_stats_def avg round_py_def k_def)
  have m: "1 \<le> mean" "mean \<le> 5"
    using mean_checked [OF checked ne] by (simp_all add: mean_def)
  have "\<bar>a - mean\<bar> \<le> \<bar>mean\<bar> / 2 ^ 53"
    unfolding a_def by (rule to_double_near_0)
  then have am: "\<bar>a - mean\<bar> \<le> 5 / 2 ^ 53"
    using m by simp
  have "\<bar>of_int k - a * 100\<bar> \<le> 1 / 2"
    unfolding k_def by (rule round_half_even_near)
  then have ka: "\<bar>of_int k / 100 - a\<bar> \<le> 1 / 200"
    by (simp add: abs_if field_simps split: if_splits)
  have "\<bar>of_int k / 100 - mean\<bar> \<le> \<bar>of_int k / 100 - a\<bar> + \<bar>a - mean\<bar>"
    by simp
  also have "\<dots> \<le> 1 / 200 + 5 / 2 ^ 53"
    using ka am by simp
  also have "\<dots> \<le> 1 / 200 + 1 / 2 ^ 50"
    by simp
  finally show ?thesis
    using st by (auto simp: k_def a_def)
qed

subsection \<open>The example states\<close>

lemma example_db_created:
  "create_reservation (\<lambda>e. CHR ''@'' \<in> set e) ''2024-12-01 09:30:00'' example_reservation
     (init_database None) = (Inr example_row, example_db)"
  by (simp add: create_reservation_def ReservationCreate_valid_def example_reservation_def
      insert_reservation_def next_rowid_def init_database_def select_reservation_def
      response_def ReservationResponse_valid_def example_row_def example_db_def)

lemma example_row_found: "select_reservation 1 (tbl_reservations example_db) = Some example_row"
  by (simp add: select_reservation_def example_db_def example_row_def)

lemma example_db3_created:
  "snd (update_reservation (\<lambda>e. CHR ''@'' \<in> set e) ''2024-12-02 08:00:00'' 3
          (ReservationUpdate_empty\<lparr>ru_status := FieldSet (Some confirmed)\<rparr>)
       (snd (create_reservation (\<lambda>e. CHR ''@'' \<in> set e) ''2024-12-01 09:30:00''
          (example_reservation\<lparr>rc_reservation_time := ''18:30''\<rparr>)
       (snd (create_reservation (\<lambda>e. CHR ''@'' \<in> set e) ''2024-12-01 09:30:00''
          (example_reservation\<lparr>rc_restaurant_id := ''r2'', rc_reservation_date := ''2024-12-24'',
             rc_reservation_time := ''20:00''\<rparr>)
          example_db))))) = example_db3"
  by (simp add: update_reservation_def ReservationUpdate_valid_def ReservationUpdate_empty_def
      update_data_def execute_update_def update_row_def response_def ReservationResponse_valid_def
      create_reservation_def ReservationCreate_valid_def example_reservation_def
      insert_reservation_def next_rowid_def select_reservation_def
      example_db_def example_db3_def example_row_def example_row2_def example_row3_def)

lemma example_reviews_db_created:
  "snd (create_review (\<lambda>e. True) ''2024-11-03 08:00:00''
          (example_review_create\<lparr>rvc_restaurant_id := ''r2'', rvc_rating := 1\<rparr>)
       (snd (create_review (\<lambda>e. True) ''2024-11-02 12:00:00''
          (example_review_create\<lparr>rvc_rating := 4\<rparr>)
       (snd (create_review (\<lambda>e. True) ''2024-11-02 12:00:00''
          (example_review_create\<lparr>rvc_rating := 3\<rparr>)
       (snd (create_review (\<lambda>e. True) ''2024-11-01 12:00:00'' example_review_create
          (init_database None)))))))) = example_reviews_db"
  by (simp add: create_review_def ReviewCreate_valid_def insert_review_def rating_check_def
      next_rowid_def select_review_def init_database_def example_review_create_def
      example_reviews_db_def example_review_def example_review2_def example_review3_def
      example_review4_def)

lemma example_reviews_checked: "reviews_checked example_reviews_db"
  by (simp add: reviews_checked_def rating_check_def example_reviews_db_def example_review_def
      example_review2_def example_review3_def example_review4_def)

section \<open>The claims\<close>

subsection \<open>Creating reservations\<close>

text \<open>
  Claim C2. For every valid ReservationCreate input, \<open>create_reservation\<close> succeeds, and
  \<open>get_reservation\<close> of the returned id on the resulting database yields the same row:
  its eight input columns equal the input, its status is \<open>pending\<close>, its id is the
  rowid generated by the insert (not the id of any row stored before), and
  \<open>created_at\<close> equals \<open>updated_at\<close>.
\<close>

theorem create_then_get_reservation:
  assumes "ReservationCreate_valid email_ok reservation"
  shows "\<exists>row db'.
           create_reservation email_ok now reservation db = (Inr row, db') \<and>
           get_reservation (rsv_id row) db' = (Inr row, db') \<and>
           row = \<lparr>rsv_id = next_rowid (seq_reservations db) (map rsv_id (tbl_reservations db)),
                  rsv_restaurant_id = rc_restaurant_id reservation,
                  rsv_customer_name = rc_customer_name reservation,
                  rsv_customer_email = rc_customer_email reservation,
                  rsv_customer_phone = rc_customer_phone reservation,
                  rsv_party_size = rc_party_size reservation,
                  rsv_reservation_date = rc_reservation_date reservation,
                  rsv_reservation_time = rc_reservation_time reservation,
                  rsv_status = Some ''pending'',
                  rsv_notes = rc_notes reservation,
                  rsv_created_at = now,
                  rsv_updated_at = now\<rparr> \<and>
           rsv_id row \<notin> rsv_id ` set (tbl_reservations db) \<and>
           rsv_created_at row = rsv_updated_at row"
proof -
  let ?i = "next_rowid (seq_reservations db) (map rsv_id (tbl_reservations db))"
  let ?db' = "snd (insert_reservation now reservation db)"
  note created = create_reservation_valid [OF assms, of now db]
  have fresh: "?i \<notin> rsv_id ` set (tbl_reservations db)"
    using next_rowid_fresh [of ?i "map rsv_id (tbl_reservations db)" "seq_reservations db"]
    by auto
  have "select_reservation ?i (tbl_reservations ?db') = Some (projr (fst (create_reservation email_ok now reservation db)))"
    unfolding created by (simp add: insert_reservation_def Let_def select_inserted_reservation)
  then have "get_reservation ?i ?db' = (Inr (projr (fst (create_reservation email_ok now reservation db))), ?db')"
    unfolding created by (simp add: get_reservation_def response_def ReservationResponse_valid_def)
  with fresh show ?thesis
    unfolding created by simp
qed

text \<open>The claim at the example reservation, on the empty database.\<close>

theorem create_then_get_reservation_witness:
  "ReservationCreate_valid (\<lambda>e. CHR ''@'' \<in> set e) example_reservation \<and>
   (\<exists>row db'.
      create_reservation (\<lambda>e. CHR ''@'' \<in> set e) ''2024-12-01 09:30:00'' example_reservation
        (init_database None) = (Inr row, db') \<and>
      get_reservation (rsv_id row) db' = (Inr row, db') \<and>
      rsv_id row = 1 \<and> rsv_status row = Some ''pending'' \<and> rsv_party_size row = 4 \<and>
      rsv_created_at row = rsv_updated_at row)"
proof -
  have valid: "ReservationCreate_valid (\<lambda>e. CHR ''@'' \<in> set e) example_reservation"
    by (simp add: ReservationCreate_valid_def example_reservation_def)
  have one: "next_rowid (seq_reservations (init_database None))
               (map rsv_id (tbl_reservations (init_database None))) = 1"
    by (simp add: next_rowid_def init_database_def)
  from create_then_get_reservation [OF valid, of "''2024-12-01 09:30:00''" "init_database None"]
  obtain row db' where
    "create_reservation (\<lambda>e. CHR ''@'' \<in> set e) ''2024-12-01 09:30:00'' example_reservation
        (init_database None) = (Inr row, db')"
    "get_reservation (rsv_id row) db' = (Inr row, db')"
    "rsv_id row = 1" "rsv_status row = Some ''pending''" "rsv_party_size row = 4"
    "rsv_created_at row = rsv_updated_at row"
    unfolding one by (auto simp: example_reservation_def)
  with valid show ?thesis by blast
qed

text \<open>
  Claim C3. For every reservation-create input whose party size lies outside [1, 20],
  \<open>create_reservation\<close> fails with an error of kind ValidationError and returns the
  database it was given: no row is persisted.
\<close>

theorem create_reservation_party_size_rejected:
  assumes "rc_party_size reservation < 1 \<or> 20 < rc_party_size reservation"
  shows "\<exists>e. create_reservation email_ok now reservation db = (Inl e, db) \<and>
             kind_of e = ValidationError"
  using assms by (auto simp: create_reservation_def ReservationCreate_valid_def)

text \<open>The claim at party size 21.\<close>

theorem create_reservation_party_size_rejected_witness:
  "(rc_party_size (example_reservation\<lparr>rc_party_size := 21\<rparr>) < 1 \<or>
    20 < rc_party_size (example_reservation\<lparr>rc_party_size := 21\<rparr>)) \<and>
   (\<exists>e. create_reservation (\<lambda>e. CHR ''@'' \<in> set e) ''2024-12-01 09:30:00''
          (example_reservation\<lparr>rc_party_size := 21\<rparr>) (init_database None) =
            (Inl e, init_database None) \<and>
        kind_of e = ValidationError)"
  using create_reservation_party_size_rejected
    [of "example_reservation\<lparr>rc_party_size := 21\<rparr>" "\<lambda>e. CHR ''@'' \<in> set e"
      "''2024-12-01 09:30:00''" "init_database None"]
  by simp

subsection \<open>Updating reservations\<close>

text \<open>
  Claim C4. For every existing reservation id, \<open>update_reservation\<close> with the empty
  update fails with an error of kind ValidationError and leaves the database as it was.
  With exactly one field set (to a value that the update model accepts; the nullable
  columns also take \<open>None\<close>) the stored row of that id has that one column replaced and
  \<open>updated_at\<close> refreshed, every other column as before, and the rows of other ids are
  untouched. The route answers with that row if the row has a status; a row without one
  fails the response model, so setting the status to \<open>None\<close> commits the update and is
  answered with status 500.
\<close>

theorem update_reservation_partial:
  assumes "select_reservation i (tbl_reservations db) = Some r"
  shows "(\<exists>e. update_reservation email_ok now i ReservationUpdate_empty db = (Inl e, db) \<and>
              kind_of e = ValidationError) \<and>
     update_reservation email_ok now i (ReservationUpdate_empty\<lparr>ru_customer_name := FieldSet (Some name)\<rparr>) db =
       response (r\<lparr>rsv_customer_name := name, rsv_updated_at := now\<rparr>)
        (db\<lparr>tbl_reservations :=
             map (\<lambda>x. if rsv_id x = i then x\<lparr>rsv_customer_name := name, rsv_updated_at := now\<rparr> else x)
               (tbl_reservations db)\<rparr>) \<and>
     (email_ok email \<longrightarrow>
     update_reservation email_ok now i (ReservationUpdate_empty\<lparr>ru_customer_email := FieldSet (Some email)\<rparr>) db =
       response (r\<lparr>rsv_customer_email := email, rsv_updated_at := now\<rparr>)
        (db\<lparr>tbl_reservations :=
             map (\<lambda>x. if rsv_id x = i then x\<lparr>rsv_customer_email := email, rsv_updated_at := now\<rparr> else x)
               (tbl_reservations db)\<rparr>)) \<and>
     update_reservation email_ok now i (ReservationUpdate_empty\<lparr>ru_customer_phone := FieldSet phone\<rparr>) db =
       response (r\<lparr>rsv_customer_phone := phone, rsv_updated_at := now\<rparr>)
        (db\<lparr>tbl_reservations :=
             map (\<lambda>x. if rsv_id x = i then x\<lparr>rsv_customer_phone := phone, rsv_updated_at := now\<rparr> else x)
               (tbl_reservations db)\<rparr>) \<and>
     (1 \<le> party_size \<and> party_size \<le> 20 \<longrightarrow>
     update_reservation email_ok now i (ReservationUpdate_empty\<lparr>ru_party_size := FieldSet (Some party_size)\<rparr>) db =
       response (r\<lparr>rsv_party_size := party_size, rsv_updated_at := now\<rparr>)
        (db\<lparr>tbl_reservations :=
             map (\<lambda>x. if rsv_id x = i then x\<lparr>rsv_party_size := party_size, rsv_updated_at := now\<rparr> else x)
               (tbl_reservations db)\<rparr>)) \<and>
     update_reservation email_ok now i (ReservationUpdate_empty\<lparr>ru_reservation_date := FieldSet (Some date)\<rparr>) db =
       response (r\<lparr>rsv_reservation_date := date, rsv_updated_at := now\<rparr>)
        (db\<lparr>tbl_reservations :=
             map (\<lambda>x. if rsv_id x = i then x\<lparr>rsv_reservation_date := date, rsv_updated_at := now\<rparr> else x)
               (tbl_reservations db)\<rparr>) \<and>
     update_reservation email_ok now i (ReservationUpdate_empty\<lparr>ru_reservation_time := FieldSet (Some time)\<rparr>) db =
       response (r\<lparr>rsv_reservation_time := time, rsv_updated_at := now\<rparr>)
        (db\<lparr>tbl_reservations :=
             map (\<lambda>x. if rsv_id x = i then x\<lparr>rsv_reservation_time := time, rsv_updated_at := now\<rparr> else x)
               (tbl_reservations db)\<rparr>) \<and>
     update_reservation email_ok now i (ReservationUpdate_empty\<lparr>ru_notes := FieldSet notes\<rparr>) db =
       response (r\<lparr>rsv_notes := notes, rsv_updated_at := now\<rparr>)
        (db\<lparr>tbl_reservations :=
             map (\<lambda>x. if rsv_id x = i then x\<lparr>rsv_notes := notes, rsv_updated_at := now\<rparr> else x)
               (tbl_reservations db)\<rparr>) \<and>
     update_reservation email_ok now i
         (ReservationUpdate_empty\<lparr>ru_status := FieldSet (Some target)\<rparr>) db =
       (Inr (r\<lparr>rsv_status := Some (status_value target), rsv_updated_at := now\<rparr>),
        db\<lparr>tbl_reservations :=
             map (\<lambda>x. if rsv_id x = i
                      then x\<lparr>rsv_status := Some (status_value target), rsv_updated_at := now\<rparr>
                      else x)
               (tbl_reservations db)\<rparr>) \<and>
     update_reservation email_ok now i (ReservationUpdate_empty\<lparr>ru_status := FieldSet None\<rparr>) db =
       (Inl ResponseValidationError,
        db\<lparr>tbl_reservations :=
             map (\<lambda>x. if rsv_id x = i then x\<lparr>rsv_status := None, rsv_updated_at := now\<rparr> else x)
               (tbl_reservations db)\<rparr>) \<and>
     (\<forall>row db'. response row db' =
        (if rsv_status row = None then (Inl ResponseValidationError, db') else (Inr row, db')))"
proof -
  have empty: "\<exists>e. update_reservation email_ok now i ReservationUpdate_empty db = (Inl e, db) \<and>
              kind_of e = ValidationError"
    using update_empty [OF assms, of email_ok now] by simp
  have resp: "response row db' =
        (if rsv_status row = None then (Inl ResponseValidationError, db') else (Inr row, db'))"
    for row db'
    by (simp add: response_def ReservationResponse_valid_def)
  note st = update_only_status [OF assms, of email_ok now]
  have some: "update_reservation email_ok now i
         (ReservationUpdate_empty\<lparr>ru_status := FieldSet (Some target)\<rparr>) db =
       (Inr (r\<lparr>rsv_status := Some (status_value target), rsv_updated_at := now\<rparr>),
        db\<lparr>tbl_reservations :=
             map (\<lambda>x. if rsv_id x = i
                      then x\<lparr>rsv_status := Some (status_value target), rsv_updated_at := now\<rparr>
                      else x)
               (tbl_reservations db)\<rparr>)"
    unfolding st [of "Some target"] by (simp add: resp)
  have none: "update_reservation email_ok now i
         (ReservationUpdate_empty\<lparr>ru_status := FieldSet None\<rparr>) db =
       (Inl ResponseValidationError,
        db\<lparr>tbl_reservations :=
             map (\<lambda>x. if rsv_id x = i then x\<lparr>rsv_status := None, rsv_updated_at := now\<rparr> else x)
               (tbl_reservations db)\<rparr>)"
    unfolding st [of None] by (simp add: resp)
  show ?thesis
  proof (intro conjI impI allI)
    show "\<exists>e. update_reservation email_ok now i ReservationUpdate_empty db = (Inl e, db) \<and>
              kind_of e = ValidationError"
      by (rule empty)
  qed (rule some none resp update_only_customer_name update_only_customer_email
        update_only_customer_phone update_only_party_size update_only_reservation_date
        update_only_reservation_time update_only_notes;
       (rule assms | assumption))+
qed

text \<open>
  The claim at the stored example row: the empty update is refused, an update of the
  party size alone changes that column and \<open>updated_at\<close>, and an update of the status to
  \<open>None\<close> is stored and answered with status 500.
\<close>

theorem update_reservation_partial_witness:
  "select_reservation 1 (tbl_reservations example_db) = Some example_row \<and>
   (\<exists>e. update_reservation (\<lambda>e. CHR ''@'' \<in> set e) ''2024-12-02 08:00:00'' 1
          ReservationUpdate_empty example_db = (Inl e, example_db) \<and>
        kind_of e = ValidationError) \<and>
   update_reservation (\<lambda>e. CHR ''@'' \<in> set e) ''2024-12-02 08:00:00'' 1
     (ReservationUpdate_empty\<lparr>ru_party_size := FieldSet (Some 6)\<rparr>) example_db =
       (Inr (example_row\<lparr>rsv_party_size := 6, rsv_updated_at := ''2024-12-02 08:00:00''\<rparr>),
        example_db\<lparr>tbl_reservations :=
          [example_row\<lparr>rsv_party_size := 6, rsv_updated_at := ''2024-12-02 08:00:00''\<rparr>]\<rparr>) \<and>
   update_reservation (\<lambda>e. CHR ''@'' \<in> set e) ''2024-12-02 08:00:00'' 1
     (ReservationUpdate_empty\<lparr>ru_status := FieldSet None\<rparr>) example_db =
       (Inl ResponseValidationError,
        example_db\<lparr>tbl_reservations :=
          [example_row\<lparr>rsv_status := None, rsv_updated_at := ''2024-12-02 08:00:00''\<rparr>]\<rparr>)"
proof -
  have row: "rsv_id example_row = 1" "rsv_status example_row \<noteq> None"
    by (simp_all add: example_row_def)
  have tbl: "tbl_reservations example_db = [example_row]"
    by (simp add: example_db_def)
  note inst = update_reservation_partial [OF example_row_found,
      of "\<lambda>e. CHR ''@'' \<in> set e" "''2024-12-02 08:00:00''" _ _ _ 6]
  from inst have "\<exists>e. update_reservation (\<lambda>e. CHR ''@'' \<in> set e) ''2024-12-02 08:00:00'' 1
          ReservationUpdate_empty example_db = (Inl e, example_db) \<and>
        kind_of e = ValidationError"
    by blast
  moreover from inst have "update_reservation (\<lambda>e. CHR ''@'' \<in> set e) ''2024-12-02 08:00:00'' 1
     (ReservationUpdate_empty\<lparr>ru_party_size := FieldSet (Some 6)\<rparr>) example_db =
       (Inr (example_row\<lparr>rsv_party_size := 6, rsv_updated_at := ''2024-12-02 08:00:00''\<rparr>),
        example_db\<lparr>tbl_reservations :=
          [example_row\<lparr>rsv_party_size := 6, rsv_updated_at := ''2024-12-02 08:00:00''\<rparr>]\<rparr>)"
    by (simp add: row tbl)
  moreover from inst have "update_reservation (\<lambda>e. CHR ''@'' \<in> set e) ''2024-12-02 08:00:00'' 1
     (ReservationUpdate_empty\<lparr>ru_status := FieldSet None\<rparr>) example_db =
       (Inl ResponseValidationError,
        example_db\<lparr>tbl_reservations :=
          [example_row\<lparr>rsv_status := None, rsv_updated_at := ''2024-12-02 08:00:00''\<rparr>]\<rparr>)"
    by (simp add: row tbl)
  ultimately show ?thesis
    using example_row_found by blast
qed

text \<open>
  Claim C10. For every existing reservation, whatever its current status, and every
  target status of the enumeration, \<open>update_reservation\<close> with that status alone
  succeeds, and the stored row then carries the target status: no transition is
  restricted.
\<close>

theorem update_status_unrestricted:
  assumes "select_reservation i (tbl_reservations db) = Some r"
  shows "\<exists>r' db'.
           update_reservation email_ok now i
             (ReservationUpdate_empty\<lparr>ru_status := FieldSet (Some target)\<rparr>) db = (Inr r', db') \<and>
           rsv_status r' = Some (status_value target) \<and>
           get_reservation i db' = (Inr r', db')"
proof -
  let ?g = "\<lambda>x. x\<lparr>rsv_status := Some (status_value target), rsv_updated_at := now\<rparr>"
  let ?tbl' = "map (\<lambda>x. if rsv_id x = i then ?g x else x) (tbl_reservations db)"
  have "update_reservation email_ok now i
               (ReservationUpdate_empty\<lparr>ru_status := FieldSet (Some target)\<rparr>) db =
             response (?g r) (db\<lparr>tbl_reservations := ?tbl'\<rparr>)"
    by (rule update_reservation_total [OF assms])
       (simp_all add: ReservationUpdate_empty_def ReservationUpdate_valid_def update_data_def
          update_row_def)
  then have upd: "update_reservation email_ok now i
               (ReservationUpdate_empty\<lparr>ru_status := FieldSet (Some target)\<rparr>) db =
             (Inr (?g r), db\<lparr>tbl_reservations := ?tbl'\<rparr>)"
    by (simp add: response_def ReservationResponse_valid_def)
  have "rsv_id r = i"
    using assms unfolding select_reservation_def by (auto dest: find_Some_iff [THEN iffD1])
  moreover have "find (\<lambda>x. rsv_id x = i) ?tbl' = Some (if rsv_id r = i then ?g r else r)"
    using assms unfolding select_reservation_def
    by (rule find_map_same_key) simp
  ultimately have "get_reservation i (db\<lparr>tbl_reservations := ?tbl'\<rparr>) =
      (Inr (?g r), db\<lparr>tbl_reservations := ?tbl'\<rparr>)"
    by (simp add: get_reservation_def select_reservation_def response_def
        ReservationResponse_valid_def)
  with upd show ?thesis
    by simp
qed

text \<open>The claim at a cancelled reservation that is set back to confirmed.\<close>

theorem update_status_unrestricted_witness:
  "select_reservation 1
     (tbl_reservations (example_db\<lparr>tbl_reservations := [example_row\<lparr>rsv_status := Some ''cancelled''\<rparr>]\<rparr>)) =
     Some (example_row\<lparr>rsv_status := Some ''cancelled''\<rparr>) \<and>
   (\<exists>r' db'.
      update_reservation (\<lambda>e. True) ''2024-12-02 08:00:00'' 1
        (ReservationUpdate_empty\<lparr>ru_status := FieldSet (Some confirmed)\<rparr>)
        (example_db\<lparr>tbl_reservations := [example_row\<lparr>rsv_status := Some ''cancelled''\<rparr>]\<rparr>) =
          (Inr r', db') \<and>
      rsv_status r' = Some ''confirmed'' \<and> get_reservation 1 db' = (Inr r', db'))"
proof -
  have found: "select_reservation 1
     (tbl_reservations (example_db\<lparr>tbl_reservations := [example_row\<lparr>rsv_status := Some ''cancelled''\<rparr>]\<rparr>)) =
     Some (example_row\<lparr>rsv_status := Some ''cancelled''\<rparr>)"
    by (simp add: select_reservation_def example_row_def)
  from update_status_unrestricted [OF found, of "\<lambda>e. True" "''2024-12-02 08:00:00''" confirmed]
  show ?thesis
    using found by simp
qed

subsection \<open>Listing reservations\<close>



subsection \<open>Reviews: statistics\<close>

text \<open>
  Claim C1, as the code has it. With the empty restaurant id \<open>get_reviews\<close> takes the
  statistics over all reviews: on the example reviews, none of which has the empty id, it
  counts four reviews with average 3.25. For a restaurant with a non-empty id, let the
  stored reviews satisfy the rating constraint of the schema and let \<open>ratings\<close> be the
  ratings \<open>r_1..r_n\<close> of its reviews. Then \<open>get_reviews\<close> for that restaurant, with any
  valid filter and sort parameters, returns \<open>total_reviews = n\<close>; for \<open>n = 0\<close> the average
  is \<open>None\<close>; otherwise it is Python's \<^verbatim>\<open>round(mean, 2)\<close> of the double mean: the double
  of \<open>k / 100\<close> for the integer \<open>k\<close> nearest to a hundred times the double mean (a tie
  going to the even one), and \<open>k / 100\<close> lies within 0.005 of the exact mean up to the
  rounding of the mean to a double.
\<close>

theorem stats_of_empty_restaurant_id:
  "fst (get_reviews rev_id (Some []) (Some 5) None None example_reviews_db) =
     Inr \<lparr>reviews = [example_review],
          stats = \<lparr>avg_rating = Some (13 / 4), total_reviews = 4\<rparr>\<rparr> \<and>
   rev_restaurant_id example_review \<noteq> [] \<and> rev_restaurant_id example_review2 \<noteq> [] \<and>
   rev_restaurant_id example_review3 \<noteq> [] \<and> rev_restaurant_id example_review4 \<noteq> []"
proof -
  have valid: "get_reviews_params_valid (Some 5) (query_default ''created_at'' None)
      (query_default ''desc'' None)"
    by (simp add: get_reviews_params_valid_def query_default_def)
  show ?thesis
    unfolding get_reviews_eq [OF valid]
    by (simp add: given_def make_stats_def AVG_def COUNT_def to_double_13_4 round_py_13_4
        order_by_desc_def scan_def query_default_def example_reviews_db_def example_review_def
        example_review2_def example_review3_def example_review4_def)
qed

theorem stats_total_and_average:
  fixes db :: database and restaurant_id :: string
  defines "ratings \<equiv>
    map rev_rating (filter (\<lambda>r. rev_restaurant_id r = restaurant_id) (tbl_reviews db))"
  assumes checked: "reviews_checked db"
    and restaurant: "restaurant_id \<noteq> []"
    and valid: "get_reviews_params_valid min_rating (query_default ''created_at'' sort_by)
                  (query_default ''desc'' order)"
  shows "\<exists>w. get_reviews rank (Some restaurant_id) min_rating sort_by order db = (Inr w, db) \<and>
             total_reviews (stats w) = int (length ratings) \<and>
             (ratings = [] \<longrightarrow> avg_rating (stats w) = None) \<and>
             (ratings \<noteq> [] \<longrightarrow>
                (\<exists>k. avg_rating (stats w) = Some (to_double (of_int k / 100)) \<and>
                     k = round_half_even
                           (to_double (of_int (sum_list ratings) / of_int (int (length ratings))) *
                            100) \<and>
                     \<bar>of_int k / 100 - of_int (sum_list ratings) / of_int (int (length ratings))\<bar>
                       \<le> (1 / 200 + 1 / 2 ^ 50 :: rat)))"
proof -
  let ?rows = "filter (\<lambda>r. rev_restaurant_id r = restaurant_id) (tbl_reviews db)"
  have chk: "\<forall>x \<in> set ratings. rating_check x"
    unfolding ratings_def by (rule checked_ratings [OF checked])
  have cnt: "COUNT ?rows = int (length ratings)"
    by (simp add: COUNT_def ratings_def)
  have none: "avg_rating (make_stats (AVG ratings) (COUNT ?rows)) = None" if "ratings = []"
    using that by (simp add: make_stats_empty)
  have some: "\<exists>k. avg_rating (make_stats (AVG ratings) (COUNT ?rows)) =
                  Some (to_double (of_int k / 100)) \<and>
                k = round_half_even
                      (to_double (of_int (sum_list ratings) / of_int (int (length ratings))) * 100) \<and>
                \<bar>of_int k / 100 - of_int (sum_list ratings) / of_int (int (length ratings))\<bar>
                  \<le> (1 / 200 + 1 / 2 ^ 50 :: rat)"
    if "ratings \<noteq> []"
    using make_stats_checked [OF chk that, of "COUNT ?rows"] by auto
  have total: "total_reviews (make_stats (AVG ratings) (COUNT ?rows)) = int (length ratings)"
    by (simp add: make_stats_def cnt)
  have "get_reviews rank (Some restaurant_id) min_rating sort_by order db =
          (Inr \<lparr>reviews = reviews (projr (fst (get_reviews rank (Some restaurant_id) min_rating
                                                   sort_by order db))),
                stats = make_stats (AVG ratings) (COUNT ?rows)\<rparr>, db)"
    unfolding get_reviews_eq [OF valid] given_Some
    using restaurant by (simp add: ratings_def)
  then show ?thesis
    using none some total by auto
qed

text \<open>
  The claim on the example reviews: restaurant \<open>r1\<close> has the ratings 5, 3 and 4, so
  three reviews with average 4.
\<close>

theorem stats_total_and_average_witness:
  "reviews_checked example_reviews_db \<and> ''r1'' \<noteq> [] \<and>
   get_reviews_params_valid None (query_default ''created_at'' None) (query_default ''desc'' None) \<and>
   (\<exists>w. get_reviews rev_id (Some ''r1'') None None None example_reviews_db =
           (Inr w, example_reviews_db) \<and>
        total_reviews (stats w) = 3 \<and> avg_rating (stats w) = Some 4)"
proof -
  have r: "map rev_rating (filter (\<lambda>r. rev_restaurant_id r = ''r1'') (tbl_reviews example_reviews_db)) =
             [5, 3, 4]"
    by (simp add: example_reviews_db_def example_review_def example_review2_def
        example_review3_def example_review4_def)
  have k: "round_half_even 400 = 400"
    by code_simp
  from stats_total_and_average [OF example_reviews_checked _ default_params_valid,
      of "''r1''" rev_id]
  obtain w where
    "get_reviews rev_id (Some ''r1'') None None None example_reviews_db = (Inr w, example_reviews_db)"
    "total_reviews (stats w) = 3" "avg_rating (stats w) = Some 4"
    unfolding r by (auto simp: k to_double_4)
  then show ?thesis
    using example_reviews_checked default_params_valid by auto
qed

text \<open>
  Claim C9. The statistics of a \<open>get_reviews\<close> response are computed over all reviews
  that match the restaurant filter and do not depend on \<open>min_rating\<close>: they are those
  of the same request without it, so the list never holds more reviews than
  \<open>total_reviews\<close> counts; and on the example reviews, restaurant \<open>r1\<close> with
  \<open>min_rating = 4\<close> returns fewer reviews than \<open>total_reviews\<close>.
\<close>

theorem stats_ignore_min_rating:
  "(get_reviews_params_valid min_rating (query_default ''created_at'' sort_by)
      (query_default ''desc'' order) \<longrightarrow>
    (\<exists>w w0. get_reviews rank restaurant_id min_rating sort_by order db = (Inr w, db) \<and>
            get_reviews rank restaurant_id None sort_by order db = (Inr w0, db) \<and>
            stats w = stats w0 \<and>
            stats w =
              make_stats
                (AVG (map rev_rating
                   (filter (\<lambda>r. given restaurant_id \<longrightarrow> Some (rev_restaurant_id r) = restaurant_id)
                      (tbl_reviews db))))
                (COUNT
                   (filter (\<lambda>r. given restaurant_id \<longrightarrow> Some (rev_restaurant_id r) = restaurant_id)
                      (tbl_reviews db))) \<and>
            int (length (reviews w)) \<le> total_reviews (stats w))) \<and>
   (\<exists>w. get_reviews rank (Some ''r1'') (Some 4) None None example_reviews_db =
           (Inr w, example_reviews_db) \<and>
        int (length (reviews w)) < total_reviews (stats w))"
proof (intro conjI impI)
  assume valid: "get_reviews_params_valid min_rating (query_default ''created_at'' sort_by)
      (query_default ''desc'' order)"
  then have valid0: "get_reviews_params_valid None (query_default ''created_at'' sort_by)
      (query_default ''desc'' order)"
    by (simp add: get_reviews_params_valid_def)
  let ?R = "\<lambda>r. given restaurant_id \<longrightarrow> Some (rev_restaurant_id r) = restaurant_id"
  let ?P = "\<lambda>r. ?R r \<and> (\<forall>n. min_rating = Some n \<longrightarrow> n \<le> rev_rating r)"
  have "length (filter ?P (tbl_reviews db)) \<le> length (filter ?R (tbl_reviews db))"
    by (rule length_filter_conj_le)
  then show "\<exists>w w0. get_reviews rank restaurant_id min_rating sort_by order db = (Inr w, db) \<and>
            get_reviews rank restaurant_id None sort_by order db = (Inr w0, db) \<and>
            stats w = stats w0 \<and>
            stats w = make_stats (AVG (map rev_rating (filter ?R (tbl_reviews db))))
                        (COUNT (filter ?R (tbl_reviews db))) \<and>
            int (length (reviews w)) \<le> total_reviews (stats w)"
    unfolding get_reviews_eq [OF valid] get_reviews_eq [OF valid0]
    by (simp add: make_stats_def COUNT_def order_by_asc_def order_by_desc_def scan_def)
next
  have valid: "get_reviews_params_valid (Some 4) (query_default ''created_at'' None)
      (query_default ''desc'' None)"
    by (simp add: get_reviews_params_valid_def query_default_def)
  show "\<exists>w. get_reviews rank (Some ''r1'') (Some 4) None None example_reviews_db =
           (Inr w, example_reviews_db) \<and>
        int (length (reviews w)) < total_reviews (stats w)"
    unfolding get_reviews_eq [OF valid]
    by (simp add: given_def make_stats_def COUNT_def order_by_desc_def scan_def query_default_def
        example_reviews_db_def example_review_def example_review2_def example_review3_def
        example_review4_def)
qed

text \<open>The first part of the claim at restaurant \<open>r1\<close> with \<open>min_rating = 4\<close>.\<close>

theorem stats_ignore_min_rating_witness:
  "get_reviews_params_valid (Some 4) (query_default ''created_at'' None)
      (query_default ''desc'' None) \<and>
   (\<exists>w w0. get_reviews rev_id (Some ''r1'') (Some 4) None None example_reviews_db =
             (Inr w, example_reviews_db) \<and>
           get_reviews rev_id (Some ''r1'') None None None example_reviews_db =
             (Inr w0, example_reviews_db) \<and>
           stats w = stats w0)"
proof -
  have valid: "get_reviews_params_valid (Some 4) (query_default ''created_at'' None)
      (query_default ''desc'' None)"
    by (simp add: get_reviews_params_valid_def query_default_def)
  with stats_ignore_min_rating [of "Some 4" None None rev_id "Some ''r1''" example_reviews_db]
  show ?thesis
    by blast
qed

subsection \<open>Reviews: order of the list\<close>

text \<open>
  Claim C5, as the code has it. Without sort options \<open>get_reviews\<close> returns exactly the
  reviews that match the filters, ordered by \<open>created_at\<close> descending; with
  \<open>sort_by = rating\<close> and \<open>order = asc\<close> it returns them by rating ascending. The
  statement names no second key: reviews with equal timestamps (equal ratings in the
  second case) come in the order in which the scan delivers them. On the example reviews,
  where the reviews 2 and 3 of restaurant \<open>r1\<close> were created in the same second and the
  scan runs in rowid order, the default list has review 2 before review 3, which a
  tie-break on id descending would put the other way round.
\<close>

theorem default_order_no_id_tie_break:
  "fst (get_reviews rev_id (Some ''r1'') None None None example_reviews_db) =
     Inr \<lparr>reviews = [example_review2, example_review3, example_review],
          stats = \<lparr>avg_rating = Some 4, total_reviews = 3\<rparr>\<rparr> \<and>
   rev_created_at example_review2 = rev_created_at example_review3 \<and>
   rev_id example_review2 < rev_id example_review3"
  unfolding get_reviews_eq [OF default_params_valid]
  by (simp add: given_def make_stats_def AVG_def COUNT_def to_double_4 round_py_4
      order_by_desc_def scan_def query_default_def example_reviews_db_def example_review_def
      example_review2_def example_review3_def example_review4_def)

theorem get_reviews_order:
  fixes db :: database and restaurant_id :: "string option" and min_rating :: "int option"
  defines "matching \<equiv>
    filter (\<lambda>r. (given restaurant_id \<longrightarrow> Some (rev_restaurant_id r) = restaurant_id) \<and>
                 (\<forall>n. min_rating = Some n \<longrightarrow> n \<le> rev_rating r)) (tbl_reviews db)"
  assumes "case min_rating of None \<Rightarrow> True | Some n \<Rightarrow> 1 \<le> n \<and> n \<le> 5"
  shows "(\<exists>w. get_reviews rank restaurant_id min_rating None None db = (Inr w, db) \<and>
              sorted_wrt (\<lambda>a b. rev_created_at b \<le> rev_created_at a) (reviews w) \<and>
              mset (reviews w) = mset matching \<and>
              (\<forall>t. filter (\<lambda>r. rev_created_at r = t) (reviews w) =
                   filter (\<lambda>r. rev_created_at r = t) (scan rank matching))) \<and>
         (\<exists>w. get_reviews rank restaurant_id min_rating (Some ''rating'') (Some ''asc'') db =
                 (Inr w, db) \<and>
              sorted (map rev_rating (reviews w)) \<and>
              mset (reviews w) = mset matching \<and>
              (\<forall>k. filter (\<lambda>r. rev_rating r = k) (reviews w) =
                   filter (\<lambda>r. rev_rating r = k) (scan rank matching)))"
proof -
  have v1: "get_reviews_params_valid min_rating (query_default ''created_at'' None)
      (query_default ''desc'' None)"
    and v2: "get_reviews_params_valid min_rating (query_default ''created_at'' (Some ''rating''))
      (query_default ''desc'' (Some ''asc''))"
    using assms(2) by (simp_all add: get_reviews_params_valid_def query_default_def)
  have m1: "mset (order_by_desc rev_created_at (scan rank matching)) = mset matching"
    and m2: "mset (order_by_asc rev_rating (scan rank matching)) = mset matching"
    by (simp_all add: order_by_desc_def order_by_asc_def scan_def)
  show ?thesis
    unfolding get_reviews_eq [OF v1] get_reviews_eq [OF v2] matching_def [symmetric]
    by (simp add: query_default_def sorted_order_by_desc sorted_order_by_asc
        stable_order_by_desc stable_order_by_asc m1 m2)
qed

text \<open>
  The two orders on the example reviews of restaurant \<open>r1\<close> rated 3 or more, read in
  rowid order.
\<close>

theorem get_reviews_order_witness:
  "(case Some (3::int) of None \<Rightarrow> True | Some n \<Rightarrow> 1 \<le> n \<and> n \<le> 5) \<and>
   (\<exists>w. get_reviews rev_id (Some ''r1'') (Some 3) None None example_reviews_db =
           (Inr w, example_reviews_db) \<and>
        sorted_wrt (\<lambda>a b. rev_created_at b \<le> rev_created_at a) (reviews w) \<and>
        mset (reviews w) = {#example_review, example_review2, example_review3#}) \<and>
   (\<exists>w. get_reviews rev_id (Some ''r1'') (Some 3) (Some ''rating'') (Some ''asc'') example_reviews_db =
           (Inr w, example_reviews_db) \<and>
        sorted (map rev_rating (reviews w)) \<and>
        mset (reviews w) = {#example_review, example_review2, example_review3#})"
proof -
  have "filter (\<lambda>r. (given (Some ''r1'') \<longrightarrow> Some (rev_restaurant_id r) = Some ''r1'') \<and>
                 (\<forall>n. Some 3 = Some n \<longrightarrow> n \<le> rev_rating r)) (tbl_reviews example_reviews_db) =
        [example_review, example_review2, example_review3]"
    by (simp add: given_def example_reviews_db_def example_review_def example_review2_def
        example_review3_def example_review4_def)
  then have "mset (filter (\<lambda>r. (given (Some ''r1'') \<longrightarrow> Some (rev_restaurant_id r) = Some ''r1'') \<and>
                 (\<forall>n. Some 3 = Some n \<longrightarrow> n \<le> rev_rating r)) (tbl_reviews example_reviews_db)) =
        {#example_review, example_review2, example_review3#}"
    by simp
  with get_reviews_order [of "Some 3" rev_id "Some ''r1''" example_reviews_db]
  show ?thesis
    by auto
qed

subsection \<open>Reviews: shape of the response\<close>

text \<open>
  Claim C7, as the code has it. The statistics object of the response carries the keys
  \<open>avg_rating\<close> and \<open>total_reviews\<close>, the attribute names of \<^verbatim>\<open>ReviewStats\<close> in
  \<^verbatim>\<open>models.py\<close> and in \<^verbatim>\<open>types/review.ts\<close>, not \<open>avgRating\<close> and \<open>totalReviews\<close>: the
  statistics of the example (average 4 over 3 reviews) serialise under the former names.
  Under these names the response is an object with the array \<open>reviews\<close> and the object
  \<open>stats\<close>, whose \<open>avg_rating\<close> is a number or null and whose \<open>total_reviews\<close> is an
  integer.
\<close>

theorem stats_json_field_names:
  "ReviewStats_json \<lparr>avg_rating = Some 4, total_reviews = 3\<rparr> =
     JObject [(''avg_rating'', JNumber 4), (''total_reviews'', JInt 3)] \<and>
   ReviewStats_json \<lparr>avg_rating = Some 4, total_reviews = 3\<rparr> \<noteq>
     JObject [(''avgRating'', JNumber 4), (''totalReviews'', JInt 3)]"
  by (simp add: ReviewStats_json_def json_opt_def)

theorem reviews_response_shape:
  "\<exists>rows a. ReviewsWithStats_json w =
       JObject [(''reviews'', JArray rows),
                (''stats'', JObject [(''avg_rating'', a),
                                     (''total_reviews'', JInt (total_reviews (stats w)))])] \<and>
     length rows = length (reviews w) \<and>
     (a = JNull \<or> (\<exists>x. a = JNumber x))"
  by (cases "avg_rating (stats w)")
     (simp_all add: ReviewsWithStats_json_def ReviewStats_json_def json_opt_def)

subsection \<open>The restaurant id in the queries\<close>




end
